theory Spec2Isabelle
  imports Main "HOL-Library.Word" "HOL-Library.Log_Nat" "HOL-Library.Signed_Division"
    "HOL-Library.Sublist"
begin

unbundle bit_operations_syntax

section \<open>Conventions of the embedding\<close>

text \<open>
  The embedding follows \<^verbatim>\<open>dwm.c\<close> function by function and keeps its names.

  \<^item> A \<^verbatim>\<open>Client *\<close> or \<^verbatim>\<open>Monitor *\<close> is an address (\<open>nat\<close>); a pointer that the source
    tests against \<^verbatim>\<open>NULL\<close> is an \<open>option\<close>. The structs live in two stores,
    \<open>client\<close> and \<open>monitor\<close>, so that the client list, the focus stack and
    \<^verbatim>\<open>sel\<close> share one struct per client as they do in C.
  \<^item> The chains \<^verbatim>\<open>clients/next\<close> and \<^verbatim>\<open>stack/snext\<close> are the lists of the addresses
    they link, head first. A pointer into a chain is the suffix of the list that starts
    there. This represents chains that are finite and free of repetition, which is what
    \<^verbatim>\<open>attach\<close>/\<^verbatim>\<open>detach\<close> maintain.
  \<^item> \<^verbatim>\<open>int\<close> fields are mathematical integers; signed overflow is undefined in C and is
    not given a meaning here. \<^verbatim>\<open>unsigned int\<close> arithmetic wraps and is done on
    \<open>32 word\<close>; conversions between integer types of different width or signedness are
    written out (\<open>u32\<close>, \<open>i32\<close>). The data model is LP64: \<^verbatim>\<open>long\<close> has 64 bits.
  \<^item> The flags \<^verbatim>\<open>isfixed\<close>, \<^verbatim>\<open>isfloating\<close>, ... only ever hold C truth values and are
    \<open>bool\<close>; \<^verbatim>\<open>seltags\<close> only ever holds 0 or 1 (it starts at 0 and is changed by
    \<^verbatim>\<open>^= 1\<close> alone) and is \<open>bool\<close>, with \<^verbatim>\<open>tagset[2]\<close> a function on \<open>bool\<close>.
  \<^item> \<^verbatim>\<open>float\<close> and \<^verbatim>\<open>double\<close> values are IEEE 754 values: a finite value is the
    number it denotes, and every operation rounds to nearest-even in its format.
  \<^item> Requests sent to the X server are appended to \<open>xlog\<close> in program order. Requests
    whose content depends on a reply of the server are logged as one abstract entry.
\<close>

section \<open>IEEE 754 arithmetic\<close>

datatype cfloat = Fin real | PInf | NInf | NaN

definition pow2 :: "int \<Rightarrow> real" where
  "pow2 e = (if 0 \<le> e then 2 ^ nat e else 1 / 2 ^ nat (- e))"

text \<open>\<open>ilog2 q\<close> is \<open>\<lfloor>log\<^sub>2 q\<rfloor>\<close> for \<open>q > 0\<close>.\<close>

definition ilog2 :: "real \<Rightarrow> int" where
  "ilog2 q = (if 1 \<le> q then int (floorlog 2 (nat \<lfloor>q\<rfloor>)) - 1
              else - int (floorlog 2 (nat (\<lceil>1 / q\<rceil> - 1))))"

definition round_even :: "real \<Rightarrow> int" where
  "round_even q = (let f = \<lfloor>q\<rfloor>; d = q - of_int f in
     if d < 1 / 2 then f else if 1 / 2 < d then f + 1 else if even f then f else f + 1)"

text \<open>Rounding to \<open>p\<close> significant bits, with the smallest normal exponent \<open>emin\<close>
  (below it the spacing is that of the subnormal numbers).\<close>

definition fround :: "nat \<Rightarrow> int \<Rightarrow> real \<Rightarrow> real" where
  "fround p emin q = (if q = 0 then 0 else
     let e = max (ilog2 \<bar>q\<bar>) emin; u = pow2 (e - int p + 1)
     in of_int (round_even (q / u)) * u)"

definition overflow_to :: "real \<Rightarrow> real \<Rightarrow> cfloat" where
  "overflow_to bnd r = (if bnd \<le> r then PInf else if r \<le> - bnd then NInf else Fin r)"

definition fl32 :: "real \<Rightarrow> cfloat" where
  "fl32 q = overflow_to (2 ^ 128) (fround 24 (- 126) q)"

definition fl64 :: "real \<Rightarrow> cfloat" where
  "fl64 q = overflow_to (2 ^ 1024) (fround 53 (- 1022) q)"

text \<open>Conversion of a value to another format (\<^verbatim>\<open>(float)d\<close>, or the promotion of a
  \<^verbatim>\<open>float\<close> to \<^verbatim>\<open>double\<close>, which is exact).\<close>

fun fcast :: "(real \<Rightarrow> cfloat) \<Rightarrow> cfloat \<Rightarrow> cfloat" where
  "fcast rnd (Fin a) = rnd a"
| "fcast rnd v = v"

fun fadd :: "(real \<Rightarrow> cfloat) \<Rightarrow> cfloat \<Rightarrow> cfloat \<Rightarrow> cfloat" where
  "fadd rnd (Fin a) (Fin b) = rnd (a + b)"
| "fadd rnd NaN _ = NaN"
| "fadd rnd _ NaN = NaN"
| "fadd rnd PInf NInf = NaN"
| "fadd rnd NInf PInf = NaN"
| "fadd rnd PInf _ = PInf"
| "fadd rnd NInf _ = NInf"
| "fadd rnd _ PInf = PInf"
| "fadd rnd _ NInf = NInf"

fun fneg :: "cfloat \<Rightarrow> cfloat" where
  "fneg (Fin a) = Fin (- a)"
| "fneg PInf = NInf"
| "fneg NInf = PInf"
| "fneg NaN = NaN"

definition fsub :: "(real \<Rightarrow> cfloat) \<Rightarrow> cfloat \<Rightarrow> cfloat \<Rightarrow> cfloat" where
  "fsub rnd a b = fadd rnd a (fneg b)"

text \<open>The sign of a value as \<open>-1\<close>, \<open>0\<close> or \<open>1\<close>; the sign of a zero is not tracked
  (every divisor in the program is a converted \<^verbatim>\<open>int\<close>, so no negative zero divides).\<close>

fun fsgn :: "cfloat \<Rightarrow> int" where
  "fsgn (Fin a) = (if a < 0 then - 1 else if a = 0 then 0 else 1)"
| "fsgn PInf = 1"
| "fsgn NInf = - 1"
| "fsgn NaN = 0"

definition finf :: "int \<Rightarrow> cfloat" where
  "finf sg = (if sg < 0 then NInf else PInf)"

fun fmul :: "(real \<Rightarrow> cfloat) \<Rightarrow> cfloat \<Rightarrow> cfloat \<Rightarrow> cfloat" where
  "fmul rnd (Fin a) (Fin b) = rnd (a * b)"
| "fmul rnd NaN _ = NaN"
| "fmul rnd _ NaN = NaN"
| "fmul rnd a b = (if fsgn a * fsgn b = 0 then NaN else finf (fsgn a * fsgn b))"

fun fdiv :: "(real \<Rightarrow> cfloat) \<Rightarrow> cfloat \<Rightarrow> cfloat \<Rightarrow> cfloat" where
  "fdiv rnd (Fin a) (Fin b) =
     (if b = 0 then (if a = 0 then NaN else finf (fsgn (Fin a))) else rnd (a / b))"
| "fdiv rnd NaN _ = NaN"
| "fdiv rnd _ NaN = NaN"
| "fdiv rnd (Fin a) _ = Fin 0"
| "fdiv rnd a (Fin b) = finf (fsgn a * (if b < 0 then - 1 else 1))"
| "fdiv rnd _ _ = NaN"

text \<open>\<open>flt a b\<close> is \<^verbatim>\<open>a < b\<close>: false as soon as one side is a NaN.\<close>

fun flt :: "cfloat \<Rightarrow> cfloat \<Rightarrow> bool" where
  "flt (Fin a) (Fin b) = (a < b)"
| "flt NaN _ = False"
| "flt _ NaN = False"
| "flt NInf NInf = False"
| "flt NInf _ = True"
| "flt PInf _ = False"
| "flt _ PInf = True"
| "flt _ NInf = False"

definition i2f :: "int \<Rightarrow> cfloat" where
  "i2f i = fl32 (of_int i)"

definition rtrunc :: "real \<Rightarrow> int" where
  "rtrunc q = (if 0 \<le> q then \<lfloor>q\<rfloor> else \<lceil>q\<rceil>)"

text \<open>Conversion to \<^verbatim>\<open>int\<close> truncates. Out of range it is undefined in C; the value
  given here is the one of x86-64 (\<^verbatim>\<open>cvttsd2si\<close>: the "integer indefinite" \<open>-2\<^sup>3\<^sup>1\<close>).\<close>

fun f2i :: "cfloat \<Rightarrow> int" where
  "f2i (Fin q) = (if - (2 ^ 31) \<le> rtrunc q \<and> rtrunc q < 2 ^ 31 then rtrunc q else - (2 ^ 31))"
| "f2i _ = - (2 ^ 31)"

text \<open>Conversion to \<^verbatim>\<open>unsigned int\<close>: x86-64 converts to a 64-bit integer and keeps the
  low 32 bits.\<close>

fun f2u :: "cfloat \<Rightarrow> 32 word" where
  "f2u (Fin q) = (if - (2 ^ 63) \<le> rtrunc q \<and> rtrunc q < 2 ^ 63 then word_of_int (rtrunc q) else 0)"
| "f2u _ = 0"

section \<open>Integer conversions\<close>

definition u32 :: "int \<Rightarrow> 32 word" where
  "u32 i = word_of_int i"

definition i32 :: "32 word \<Rightarrow> int" where
  "i32 v = sint v"

text \<open>Storing a \<^verbatim>\<open>long\<close> into an \<^verbatim>\<open>int\<close> keeps the low 32 bits.\<close>

definition long2int :: "int \<Rightarrow> int" where
  "long2int v = i32 (u32 v)"

section \<open>Data model\<close>

type_synonym window = nat
type_synonym tagmask = "32 word"

record Client =
  name :: string
  mina :: cfloat
  maxa :: cfloat
  cx :: int
  cy :: int
  cw :: int
  ch :: int
  oldx :: int
  oldy :: int
  oldw :: int
  oldh :: int
  basew :: int
  baseh :: int
  incw :: int
  inch :: int
  maxw :: int
  maxh :: int
  minw :: int
  minh :: int
  bw :: int
  oldbw :: int
  tags :: tagmask
  isfixed :: bool
  isfloating :: bool
  isurgent :: bool
  neverfocus :: bool
  oldstate :: bool
  isfullscreen :: bool
  mon :: nat
  win :: window

record Monitor =
  mfact :: cfloat
  nmaster :: int
  num :: int
  bar_y :: int
  mon_bh :: int
  mx :: int
  my :: int
  mw :: int
  mh :: int
  wx :: int
  wy :: int
  ww :: int
  wh :: int
  gappx :: int
  seltags :: bool
  tagset :: "bool \<Rightarrow> tagmask"
  clients :: "nat list"
  sel :: "nat option"
  stack :: "nat list"
  barwin :: window
  traywin :: window

datatype atom = NetWMState | NetWMFullscreen | NetActiveWindow | NetClientList
  | WMState | WMTakeFocus | WMDelete

datatype xreq =
    XConfigureWindow window int int int int int
  | XConfigureBorder window int
  | XConfigureForward window "64 word" int int int int int window int
  | XSendConfigureNotify window int int int int int
  | XMoveWindow window int int
  | XMoveResizeWindow window int int int int
  | XRaiseWindow window
  | XMapWindow window
  | XSelectInput window
  | XSync
  | XSetInputFocus window
  | XDeleteProperty window atom
  | XSetNetWMState window bool
  | XSetActiveWindow window
  | XAppendClientList window
  | XSetWMState window int
  | XSetUrgencyHint window bool
  | GrabButtons window bool
  | SendProtocol window atom
  | DrainEnterNotify

record wm =
  client :: "nat \<Rightarrow> Client"
  monitor :: "nat \<Rightarrow> Monitor"
  mons :: "nat list"
  selmon :: nat
  combo :: bool
  bh :: int
  sw :: int
  sh :: int
  root :: window
  xlog :: "xreq list"

datatype error = NullDeref

subsection \<open>Configuration (the block between CONFIG START and CONFIG END)\<close>

definition borderpx :: int where "borderpx = 0"
definition gappx_cfg :: "32 word" where "gappx_cfg = 10"
definition ntags :: nat where "ntags = 9"

text \<open>\<^verbatim>\<open>static const float mfact = 0.55\<close>: the \<^verbatim>\<open>double\<close> constant, converted.\<close>

definition mfact_cfg :: cfloat where "mfact_cfg = fcast fl32 (fl64 (11 / 20))"
definition nmaster_cfg :: int where "nmaster_cfg = 1"
definition resizehints :: bool where "resizehints = True"

text \<open>\<^verbatim>\<open>TAGMASK\<close> is \<^verbatim>\<open>(1 << LENGTH(tags)) - 1\<close>, an \<^verbatim>\<open>int\<close>.\<close>

definition TAGMASK :: int where "TAGMASK = 2 ^ ntags - 1"

subsection \<open>Macros\<close>

definition WIDTH :: "Client \<Rightarrow> int" where "WIDTH C = cw C + 2 * bw C"
definition HEIGHT :: "Client \<Rightarrow> int" where "HEIGHT C = ch C + 2 * bw C"

definition ISVISIBLE :: "wm \<Rightarrow> nat \<Rightarrow> bool" where
  "ISVISIBLE s c = (let M = monitor s (mon (client s c))
                    in tags (client s c) AND tagset M (seltags M) \<noteq> 0)"

definition xsend :: "xreq \<Rightarrow> wm \<Rightarrow> wm" where
  "xsend r s = s\<lparr>xlog := xlog s @ [r]\<rparr>"

definition upd_client :: "nat \<Rightarrow> (Client \<Rightarrow> Client) \<Rightarrow> wm \<Rightarrow> wm" where
  "upd_client c f s = s\<lparr>client := (client s)(c := f (client s c))\<rparr>"

definition upd_monitor :: "nat \<Rightarrow> (Monitor \<Rightarrow> Monitor) \<Rightarrow> wm \<Rightarrow> wm" where
  "upd_monitor m f s = s\<lparr>monitor := (monitor s)(m := f (monitor s m))\<rparr>"

section \<open>Size hints\<close>

type_synonym rect = "int \<times> int \<times> int \<times> int"

text \<open>The aspect step of \<^verbatim>\<open>applysizehints\<close>. \<^verbatim>\<open>(float)*w / *h\<close> divides in \<^verbatim>\<open>float\<close>;
  \<^verbatim>\<open>*h * c->maxa + 0.5\<close> multiplies in \<^verbatim>\<open>float\<close>, adds in \<^verbatim>\<open>double\<close> and truncates.\<close>

definition aspect :: "Client \<Rightarrow> int \<times> int \<Rightarrow> int \<times> int" where
  "aspect C p = (case p of (w, h) \<Rightarrow>
     if flt (Fin 0) (mina C) \<and> flt (Fin 0) (maxa C) then
       if flt (maxa C) (fdiv fl32 (i2f w) (i2f h))
       then (f2i (fadd fl64 (fmul fl32 (i2f h) (maxa C)) (Fin (1 / 2))), h)
       else if flt (mina C) (fdiv fl32 (i2f h) (i2f w))
       then (w, f2i (fadd fl64 (fmul fl32 (i2f w) (mina C)) (Fin (1 / 2))))
       else (w, h)
     else (w, h))"

text \<open>\<^verbatim>\<open>if (inc) v -= v % inc\<close>, with C's remainder (sign of the dividend).\<close>

definition incstep :: "int \<Rightarrow> int \<Rightarrow> int" where
  "incstep inc v = (if inc \<noteq> 0 then v - v smod inc else v)"

definition maxstep :: "int \<Rightarrow> int \<Rightarrow> int" where
  "maxstep mx' v = (if mx' \<noteq> 0 then min v mx' else v)"

text \<open>The block guarded by \<^verbatim>\<open>resizehints || c->isfloating\<close>.\<close>

definition sizehints :: "Client \<Rightarrow> int \<times> int \<Rightarrow> int \<times> int" where
  "sizehints C p =
    (let baseismin = (basew C = minw C \<and> baseh C = minh C);
         p1 = (if \<not> baseismin then (fst p - basew C, snd p - baseh C) else p);
         p2 = aspect C p1;
         p3 = (if baseismin then (fst p2 - basew C, snd p2 - baseh C) else p2);
         w4 = incstep (incw C) (fst p3);
         h4 = incstep (inch C) (snd p3);
         w5 = max (w4 + basew C) (minw C);
         h5 = max (h4 + baseh C) (minh C)
     in (maxstep (maxw C) w5, maxstep (maxh C) h5))"

text \<open>The clamping of the origin: against the screen when \<^verbatim>\<open>interact\<close>, against the
  window area of the client's monitor otherwise. It reads the width after \<^verbatim>\<open>MAX(1, *w)\<close>.\<close>

definition clamp_origin :: "bool \<Rightarrow> int \<Rightarrow> int \<Rightarrow> int \<Rightarrow> int \<Rightarrow> int \<Rightarrow> int \<Rightarrow> int \<Rightarrow> int" where
  "clamp_origin interact scr lo ext outer b v len =
    (if interact then
       (let v1 = (if v > scr then scr - outer else v)
        in if v1 + len + 2 * b < 0 then 0 else v1)
     else
       (let v1 = (if v \<ge> lo + ext then lo + ext - outer else v)
        in if v1 + len + 2 * b \<le> lo then lo else v1))"

definition applysizehints :: "wm \<Rightarrow> nat \<Rightarrow> rect \<Rightarrow> bool \<Rightarrow> rect \<times> bool" where
  "applysizehints s c r interact =
    (case r of (x0, y0, w0, h0) \<Rightarrow>
     let C = client s c; M = monitor s (mon C);
         w1 = max 1 w0;
         h1 = max 1 h0;
         x1 = clamp_origin interact (sw s) (wx M) (ww M) (WIDTH C) (bw C) x0 w1;
         y1 = clamp_origin interact (sh s) (wy M) (wh M) (HEIGHT C) (bw C) y0 h1;
         h2 = (if h1 < bh s then bh s else h1);
         w2 = (if w1 < bh s then bh s else w1);
         p = (if resizehints \<or> isfloating C then sizehints C (w2, h2) else (w2, h2))
     in ((x1, y1, fst p, snd p),
         x1 \<noteq> cx C \<or> y1 \<noteq> cy C \<or> fst p \<noteq> cw C \<or> snd p \<noteq> ch C))"

section \<open>Geometry updates\<close>

definition configure :: "nat \<Rightarrow> wm \<Rightarrow> wm" where
  "configure c s =
    (let C = client s c
     in xsend (XSendConfigureNotify (win C) (cx C) (cy C) (cw C) (ch C) (bw C)) s)"

definition resizeclient :: "nat \<Rightarrow> int \<Rightarrow> int \<Rightarrow> int \<Rightarrow> int \<Rightarrow> wm \<Rightarrow> wm" where
  "resizeclient c x y w h s =
    (let s1 = upd_client c (\<lambda>C. C\<lparr>oldx := cx C, cx := x, oldy := cy C, cy := y,
                                   oldw := cw C, cw := w, oldh := ch C, ch := h\<rparr>) s;
         s2 = xsend (XConfigureWindow (win (client s1 c)) x y w h (bw (client s1 c))) s1
     in xsend XSync (configure c s2))"

definition resize :: "nat \<Rightarrow> int \<Rightarrow> int \<Rightarrow> int \<Rightarrow> int \<Rightarrow> bool \<Rightarrow> wm \<Rightarrow> wm" where
  "resize c x y w h interact s =
    (case applysizehints s c (x, y, w, h) interact of
       ((x', y', w', h'), changed) \<Rightarrow> if changed then resizeclient c x' y' w' h' s else s)"

section \<open>Layout\<close>

text \<open>\<^verbatim>\<open>showhide(c)\<close> walks the focus stack from \<^verbatim>\<open>c\<close> along \<^verbatim>\<open>snext\<close>.\<close>

fun showhide :: "nat list \<Rightarrow> wm \<Rightarrow> wm" where
  "showhide [] s = s"
| "showhide (c # cs) s =
    (if ISVISIBLE s c then
       (let s1 = xsend (XMoveWindow (win (client s c)) (cx (client s c)) (cy (client s c))) s;
            s2 = (if isfloating (client s1 c) \<and> \<not> isfullscreen (client s1 c)
                  then resize c (cx (client s1 c)) (cy (client s1 c))
                         (cw (client s1 c)) (ch (client s1 c)) False s1
                  else s1)
        in showhide cs s2)
     else
       (let s1 = showhide cs s
        in xsend (XMoveWindow (win (client s1 c)) (WIDTH (client s1 c) * - 2)
                    (cy (client s1 c))) s1))"

text \<open>\<^verbatim>\<open>nexttiled(c)\<close>: the chain from the first client at or after \<^verbatim>\<open>c\<close> that is neither
  floating nor hidden; \<open>[]\<close> is \<^verbatim>\<open>NULL\<close>.\<close>

fun nexttiled :: "wm \<Rightarrow> nat list \<Rightarrow> nat list" where
  "nexttiled s [] = []"
| "nexttiled s (c # cs) =
    (if isfloating (client s c) \<or> \<not> ISVISIBLE s c then nexttiled s cs else c # cs)"

text \<open>The two loops of \<^verbatim>\<open>tile\<close> run over \<^verbatim>\<open>c = nexttiled(m->clients)\<close>,
  \<^verbatim>\<open>c = nexttiled(c->next)\<close>. The recursions below walk the chain and skip what
  \<^verbatim>\<open>nexttiled\<close> skips (\<open>counttiled_nexttiled\<close> and \<open>tile_loop_nexttiled\<close> relate them).
  The locals \<^verbatim>\<open>i, n, h, mw, my, ty\<close> are \<^verbatim>\<open>unsigned int\<close>.\<close>

fun counttiled :: "wm \<Rightarrow> nat list \<Rightarrow> 32 word" where
  "counttiled s [] = 0"
| "counttiled s (c # cs) =
    (if isfloating (client s c) \<or> \<not> ISVISIBLE s c then counttiled s cs
     else counttiled s cs + 1)"

fun tile_loop :: "nat \<Rightarrow> 32 word \<Rightarrow> 32 word \<Rightarrow> 32 word \<Rightarrow> 32 word \<Rightarrow> 32 word
    \<Rightarrow> nat list \<Rightarrow> wm \<Rightarrow> wm" where
  "tile_loop m n mw' i my' ty [] s = s"
| "tile_loop m n mw' i my' ty (c # cs) s =
    (if isfloating (client s c) \<or> \<not> ISVISIBLE s c then tile_loop m n mw' i my' ty cs s
     else
       let M = monitor s m; b = bw (client s c) in
       if i < u32 (nmaster M) then
         (let h = (u32 (wh M) - my') div ((if n < u32 (nmaster M) then n else u32 (nmaster M)) - i)
                    - u32 (gappx M);
              s1 = resize c (wx M + gappx M) (i32 (u32 (wy M) + my'))
                     (i32 (mw' - u32 (2 * b) - u32 (gappx M))) (i32 (h - u32 (2 * b))) False s;
              hc = HEIGHT (client s1 c);
              my'' = (if my' + u32 hc < u32 (wh (monitor s1 m))
                      then my' + u32 (hc + gappx (monitor s1 m)) else my')
          in tile_loop m n mw' (i + 1) my'' ty cs s1)
       else
         (let h = (u32 (wh M) - ty) div (n - i) - u32 (gappx M);
              s1 = resize c (i32 (u32 (wx M) + mw' + u32 (gappx M))) (i32 (u32 (wy M) + ty))
                     (i32 (u32 (ww M) - mw' - u32 (2 * b) - u32 (2 * gappx M)))
                     (i32 (h - u32 (2 * b))) False s;
              hc = HEIGHT (client s1 c);
              ty' = (if ty + u32 hc < u32 (wh (monitor s1 m))
                     then ty + u32 (hc + gappx (monitor s1 m)) else ty)
          in tile_loop m n mw' (i + 1) my' ty' cs s1))"

definition tile :: "nat \<Rightarrow> wm \<Rightarrow> wm" where
  "tile m s =
    (let M = monitor s m; n = counttiled s (clients M) in
     if n = 0 then s
     else
       let mw' = (if n > u32 (nmaster M)
                  then (if nmaster M \<noteq> 0 then f2u (fmul fl32 (i2f (ww M)) (mfact M)) else 0)
                  else u32 (ww M - gappx M))
       in tile_loop m n mw' 0 (u32 (gappx M)) (u32 (gappx M)) (clients M) s)"

definition restack :: "nat \<Rightarrow> wm \<Rightarrow> wm" where
  "restack m s =
    (case sel (monitor s m) of
       None \<Rightarrow> s
     | Some c \<Rightarrow>
         let s1 = (if isfloating (client s c) then xsend (XRaiseWindow (win (client s c))) s
                   else s)
         in xsend DrainEnterNotify (xsend XSync s1))"

definition arrange :: "nat option \<Rightarrow> wm \<Rightarrow> wm" where
  "arrange mo s =
    (case mo of
       Some m \<Rightarrow> restack m (tile m (showhide (stack (monitor s m)) s))
     | None \<Rightarrow> fold tile (mons s)
                 (fold (\<lambda>m t. showhide (stack (monitor t m)) t) (mons s) s))"

section \<open>Client list and focus stack\<close>

definition attach :: "nat \<Rightarrow> wm \<Rightarrow> wm" where
  "attach c s = upd_monitor (mon (client s c)) (\<lambda>M. M\<lparr>clients := c # clients M\<rparr>) s"

definition attachstack :: "nat \<Rightarrow> wm \<Rightarrow> wm" where
  "attachstack c s = upd_monitor (mon (client s c)) (\<lambda>M. M\<lparr>stack := c # stack M\<rparr>) s"

definition detach :: "nat \<Rightarrow> wm \<Rightarrow> wm" where
  "detach c s = upd_monitor (mon (client s c)) (\<lambda>M. M\<lparr>clients := remove1 c (clients M)\<rparr>) s"

definition detachstack :: "nat \<Rightarrow> wm \<Rightarrow> wm" where
  "detachstack c s =
    (let m = mon (client s c);
         s1 = upd_monitor m (\<lambda>M. M\<lparr>stack := remove1 c (stack M)\<rparr>) s
     in if sel (monitor s1 m) = Some c
        then upd_monitor m (\<lambda>M. M\<lparr>sel := find (ISVISIBLE s1) (stack M)\<rparr>) s1
        else s1)"

text \<open>\<^verbatim>\<open>wintoclient\<close>: the first client, in the order of the monitors and of their client
  lists, that owns the window.\<close>

definition wintoclient :: "wm \<Rightarrow> window \<Rightarrow> nat option" where
  "wintoclient s w =
    find (\<lambda>c. win (client s c) = w) (concat (map (\<lambda>m. clients (monitor s m)) (mons s)))"

section \<open>Focus\<close>

text \<open>\<^verbatim>\<open>grabbuttons\<close> only talks to the server (and refreshes \<^verbatim>\<open>numlockmask\<close>, which no
  function modelled here reads).\<close>

definition grabbuttons :: "nat \<Rightarrow> bool \<Rightarrow> wm \<Rightarrow> wm" where
  "grabbuttons c focused s = xsend (GrabButtons (win (client s c)) focused) s"

definition unfocus :: "nat option \<Rightarrow> bool \<Rightarrow> wm \<Rightarrow> wm" where
  "unfocus co setfocus' s =
    (case co of
       None \<Rightarrow> s
     | Some c \<Rightarrow>
         let s1 = grabbuttons c False s
         in if setfocus' then xsend (XDeleteProperty (root s1) NetActiveWindow)
                                (xsend (XSetInputFocus (root s1)) s1)
            else s1)"

definition seturgent :: "nat \<Rightarrow> bool \<Rightarrow> wm \<Rightarrow> wm" where
  "seturgent c urg s =
    xsend (XSetUrgencyHint (win (client s c)) urg) (upd_client c (\<lambda>C. C\<lparr>isurgent := urg\<rparr>) s)"

definition setfocus :: "nat \<Rightarrow> wm \<Rightarrow> wm" where
  "setfocus c s =
    (let w = win (client s c);
         s1 = (if \<not> neverfocus (client s c)
               then xsend (XSetActiveWindow w) (xsend (XSetInputFocus w) s) else s)
     in xsend (SendProtocol w WMTakeFocus) s1)"

definition focus :: "nat option \<Rightarrow> wm \<Rightarrow> wm" where
  "focus co s =
    (let c' = (case co of
                 Some c \<Rightarrow> if ISVISIBLE s c then Some c
                           else find (ISVISIBLE s) (stack (monitor s (selmon s)))
               | None \<Rightarrow> find (ISVISIBLE s) (stack (monitor s (selmon s))));
         old = sel (monitor s (selmon s));
         s1 = (if old \<noteq> None \<and> old \<noteq> c' then unfocus old False s else s);
         s2 = (case c' of
                 Some c \<Rightarrow>
                   let sa = (if mon (client s1 c) \<noteq> selmon s1
                             then s1\<lparr>selmon := mon (client s1 c)\<rparr> else s1);
                       sb = (if isurgent (client sa c) then seturgent c False sa else sa)
                   in setfocus c (grabbuttons c True (attachstack c (detachstack c sb)))
               | None \<Rightarrow> xsend (XDeleteProperty (root s1) NetActiveWindow)
                           (xsend (XSetInputFocus (root s1)) s1))
     in upd_monitor (selmon s2) (\<lambda>M. M\<lparr>sel := c'\<rparr>) s2)"

section \<open>Promotion to master\<close>

definition pop :: "nat \<Rightarrow> wm \<Rightarrow> wm" where
  "pop c s =
    (let s1 = focus (Some c) (attach c (detach c s))
     in arrange (Some (mon (client s1 c))) s1)"

text \<open>\<^verbatim>\<open>zoom\<close>. With \<^verbatim>\<open>selmon->sel == NULL\<close> and a tiled visible client on the monitor,
  the source reaches \<^verbatim>\<open>pop(NULL)\<close>, whose \<^verbatim>\<open>detach\<close> dereferences the null pointer.\<close>

definition zoom :: "wm \<Rightarrow> error + wm" where
  "zoom s =
    (let M = monitor s (selmon s); c = sel M in
     if (case c of Some a \<Rightarrow> isfloating (client s a) | None \<Rightarrow> False) then Inr s
     else
       let t = nexttiled s (clients M) in
       if c = (case t of [] \<Rightarrow> None | a # _ \<Rightarrow> Some a) then
         (case c of
            None \<Rightarrow> Inr s
          | Some a \<Rightarrow> (case nexttiled s (tl t) of [] \<Rightarrow> Inr s | b # _ \<Rightarrow> Inr (pop b s)))
       else (case c of None \<Rightarrow> Inl NullDeref | Some a \<Rightarrow> Inr (pop a s)))"

section \<open>Fullscreen\<close>

definition setfullscreen :: "nat \<Rightarrow> bool \<Rightarrow> wm \<Rightarrow> wm" where
  "setfullscreen c fullscreen s =
    (if fullscreen \<and> \<not> isfullscreen (client s c) then
       (let s1 = xsend (XSetNetWMState (win (client s c)) True) s;
            s2 = upd_client c (\<lambda>C. C\<lparr>isfullscreen := True, oldstate := isfloating C,
                                       oldbw := bw C, bw := 0, isfloating := True\<rparr>) s1;
            M = monitor s2 (mon (client s2 c));
            s3 = resizeclient c (mx M) (my M) (mw M) (mh M) s2
        in xsend (XRaiseWindow (win (client s3 c))) s3)
     else if \<not> fullscreen \<and> isfullscreen (client s c) then
       (let s1 = xsend (XSetNetWMState (win (client s c)) False) s;
            s2 = upd_client c (\<lambda>C. C\<lparr>isfullscreen := False, isfloating := oldstate C,
                                       bw := oldbw C, cx := oldx C, cy := oldy C,
                                       cw := oldw C, ch := oldh C\<rparr>) s1;
            C2 = client s2 c;
            s3 = resizeclient c (cx C2) (cy C2) (cw C2) (ch C2) s2
        in arrange (Some (mon (client s3 c))) s3)
     else s)"

section \<open>Tags and views\<close>

text \<open>The \<^verbatim>\<open>Arg\<close> union is read through one member by each function: \<^verbatim>\<open>ui\<close> is an
  \<^verbatim>\<open>unsigned long\<close>, \<^verbatim>\<open>i\<close> a \<^verbatim>\<open>long\<close>, \<^verbatim>\<open>f\<close> a \<^verbatim>\<open>float\<close>.
  \<^verbatim>\<open>arg->ui & TAGMASK\<close> is computed in \<^verbatim>\<open>unsigned long\<close>.\<close>

definition argtags :: "64 word \<Rightarrow> 64 word" where
  "argtags ui = ui AND word_of_int TAGMASK"

definition keyrelease :: "wm \<Rightarrow> wm" where
  "keyrelease s = s\<lparr>combo := False\<rparr>"

definition comboview :: "64 word \<Rightarrow> wm \<Rightarrow> wm" where
  "comboview ui s =
    (let newtags = (ucast (argtags ui) :: tagmask);
         s1 = (if combo s then
                 upd_monitor (selmon s)
                   (\<lambda>M. M\<lparr>tagset := (tagset M)(seltags M := tagset M (seltags M) OR newtags)\<rparr>) s
               else
                 (let sa = upd_monitor (selmon s) (\<lambda>M. M\<lparr>seltags := \<not> seltags M\<rparr>) s;
                      sb = sa\<lparr>combo := True\<rparr>
                  in if newtags \<noteq> 0
                     then upd_monitor (selmon sb)
                            (\<lambda>M. M\<lparr>tagset := (tagset M)(seltags M := newtags)\<rparr>) sb
                     else sb));
         s2 = focus None s1
     in arrange (Some (selmon s2)) s2)"

definition toggleview :: "64 word \<Rightarrow> wm \<Rightarrow> wm" where
  "toggleview ui s =
    (let M = monitor s (selmon s);
         newtagset = (ucast ((ucast (tagset M (seltags M)) :: 64 word) XOR argtags ui) :: tagmask)
     in if newtagset \<noteq> 0 then
          (let s1 = upd_monitor (selmon s)
                      (\<lambda>M. M\<lparr>tagset := (tagset M)(seltags M := newtagset)\<rparr>) s;
               s2 = focus None s1
           in arrange (Some (selmon s2)) s2)
        else s)"

definition toggletag :: "64 word \<Rightarrow> wm \<Rightarrow> wm" where
  "toggletag ui s =
    (case sel (monitor s (selmon s)) of
       None \<Rightarrow> s
     | Some c \<Rightarrow>
         let newtags = (ucast ((ucast (tags (client s c)) :: 64 word) XOR argtags ui) :: tagmask)
         in if newtags \<noteq> 0 then
              (let s1 = upd_client c (\<lambda>C. C\<lparr>tags := newtags\<rparr>) s;
                   s2 = focus None s1
               in arrange (Some (selmon s2)) s2)
            else s)"

section \<open>ConfigureRequest\<close>

record XConfigureRequestEvent =
  ev_window :: window
  value_mask :: "64 word"
  ev_x :: int
  ev_y :: int
  ev_width :: int
  ev_height :: int
  ev_border_width :: int
  ev_above :: window
  ev_detail :: int

text \<open>The mask bits of \<^verbatim>\<open>X11/X.h\<close>.\<close>

definition CWX :: "64 word" where "CWX = 1"
definition CWY :: "64 word" where "CWY = 2"
definition CWWidth :: "64 word" where "CWWidth = 4"
definition CWHeight :: "64 word" where "CWHeight = 8"
definition CWBorderWidth :: "64 word" where "CWBorderWidth = 16"

definition configurerequest :: "XConfigureRequestEvent \<Rightarrow> wm \<Rightarrow> wm" where
  "configurerequest ev s =
    (let s' =
       (case wintoclient s (ev_window ev) of
          Some c \<Rightarrow>
            if value_mask ev AND CWBorderWidth \<noteq> 0 then
              upd_client c (\<lambda>C. C\<lparr>bw := ev_border_width ev\<rparr>) s
            else if isfloating (client s c) then
              (let M = monitor s (mon (client s c));
                   s1 = (if value_mask ev AND CWX \<noteq> 0
                         then upd_client c (\<lambda>C. C\<lparr>oldx := cx C, cx := mx M + ev_x ev\<rparr>) s else s);
                   s2 = (if value_mask ev AND CWY \<noteq> 0
                         then upd_client c (\<lambda>C. C\<lparr>oldy := cy C, cy := my M + ev_y ev\<rparr>) s1 else s1);
                   s3 = (if value_mask ev AND CWWidth \<noteq> 0
                         then upd_client c (\<lambda>C. C\<lparr>oldw := cw C, cw := ev_width ev\<rparr>) s2 else s2);
                   s4 = (if value_mask ev AND CWHeight \<noteq> 0
                         then upd_client c (\<lambda>C. C\<lparr>oldh := ch C, ch := ev_height ev\<rparr>) s3 else s3);
                   s5 = (if cx (client s4 c) + cw (client s4 c) > mx M + mw M
                            \<and> isfloating (client s4 c)
                         then upd_client c
                                (\<lambda>C. C\<lparr>cx := mx M + (mw M sdiv 2 - WIDTH C sdiv 2)\<rparr>) s4
                         else s4);
                   s6 = (if cy (client s5 c) + ch (client s5 c) > my M + mh M
                            \<and> isfloating (client s5 c)
                         then upd_client c
                                (\<lambda>C. C\<lparr>cy := my M + (mh M sdiv 2 - HEIGHT C sdiv 2)\<rparr>) s5
                         else s5);
                   s7 = (if value_mask ev AND (CWX OR CWY) \<noteq> 0
                            \<and> \<not> (value_mask ev AND (CWWidth OR CWHeight) \<noteq> 0)
                         then configure c s6 else s6)
               in if ISVISIBLE s7 c
                  then xsend (XMoveResizeWindow (win (client s7 c)) (cx (client s7 c))
                                (cy (client s7 c)) (cw (client s7 c)) (ch (client s7 c))) s7
                  else s7)
            else configure c s
        | None \<Rightarrow>
            xsend (XConfigureForward (ev_window ev) (value_mask ev) (ev_x ev) (ev_y ev)
                     (ev_width ev) (ev_height ev) (ev_border_width ev) (ev_above ev)
                     (ev_detail ev)) s)
     in xsend XSync s')"

section \<open>Master area\<close>

text \<open>\<^verbatim>\<open>setmfact\<close>: \<^verbatim>\<open>arg->f < 1.0\<close>, \<^verbatim>\<open>arg->f - 1.0\<close>, \<^verbatim>\<open>f < 0.05\<close> and \<^verbatim>\<open>f > 0.95\<close> are
  \<^verbatim>\<open>double\<close> operations on the promoted \<^verbatim>\<open>float\<close> (the promotion is exact);
  \<^verbatim>\<open>arg->f + selmon->mfact\<close> is a \<^verbatim>\<open>float\<close> addition.\<close>

definition setmfact :: "cfloat option \<Rightarrow> wm \<Rightarrow> wm" where
  "setmfact arg s =
    (case arg of
       None \<Rightarrow> s
     | Some a \<Rightarrow>
         let f = (if flt a (Fin 1) then fadd fl32 a (mfact (monitor s (selmon s)))
                  else fcast fl32 (fsub fl64 a (Fin 1)))
         in if flt f (fl64 (1 / 20)) \<or> flt (fl64 (19 / 20)) f then s
            else arrange (Some (selmon s))
                   (upd_monitor (selmon s) (\<lambda>M. M\<lparr>mfact := f\<rparr>) s))"

text \<open>\<^verbatim>\<open>incnmaster\<close>: \<^verbatim>\<open>selmon->nmaster + arg->i\<close> and the \<^verbatim>\<open>MAX\<close> are computed in
  \<^verbatim>\<open>long\<close>; the result is stored into the \<^verbatim>\<open>int\<close> field.\<close>

definition incnmaster :: "int \<Rightarrow> wm \<Rightarrow> wm" where
  "incnmaster i s =
    arrange (Some (selmon s))
      (upd_monitor (selmon s) (\<lambda>M. M\<lparr>nmaster := long2int (max (nmaster M + i) 0)\<rparr>) s)"

text \<open>\<^verbatim>\<open>createmon\<close>: the struct is zeroed by \<^verbatim>\<open>ecalloc\<close>, then five fields are set.\<close>

definition zero_monitor :: Monitor where
  "zero_monitor =
    \<lparr>mfact = Fin 0, nmaster = 0, num = 0, bar_y = 0, mon_bh = 0,
     mx = 0, my = 0, mw = 0, mh = 0, wx = 0, wy = 0, ww = 0, wh = 0,
     gappx = 0, seltags = False, tagset = (\<lambda>_. 0),
     clients = [], sel = None, stack = [], barwin = 0, traywin = 0\<rparr>"

definition createmon :: "wm \<Rightarrow> Monitor" where
  "createmon s =
    zero_monitor\<lparr>tagset := (\<lambda>_. 1), mfact := mfact_cfg, nmaster := nmaster_cfg,
                 mon_bh := bh s, gappx := i32 gappx_cfg\<rparr>"

definition updatebarpos :: "Monitor \<Rightarrow> Monitor" where
  "updatebarpos M =
    (let M1 = M\<lparr>wy := my M, wh := mh M\<rparr>;
         M2 = M1\<lparr>wh := wh M1 - mon_bh M1\<rparr>;
         M3 = M2\<lparr>bar_y := wy M2\<rparr>
     in M3\<lparr>wy := wy M3 + mon_bh M3\<rparr>)"

section \<open>Window adoption\<close>

text \<open>What the server answers about a window when \<^verbatim>\<open>manage\<close> and the \<^verbatim>\<open>update...\<close>
  functions query it. Queries are inputs of the model and are not logged.
  \<^item> \<open>net_wm_name\<close>, \<open>wm_name\<close>: the text of the property when \<^verbatim>\<open>gettextprop\<close>
    returns 1 (the property exists and has items);
  \<^item> \<open>transient_for\<close>: the window stored by a successful \<^verbatim>\<open>XGetTransientForHint\<close>;
  \<^item> \<open>class_hint\<close>: \<^verbatim>\<open>res_name\<close> and \<^verbatim>\<open>res_class\<close> of a successful \<^verbatim>\<open>XGetClassHint\<close>;
  \<^item> \<open>state_fullscreen\<close>, \<open>type_dialog\<close>: whether \<^verbatim>\<open>getatomprop\<close> returns the
    fullscreen atom for \<^verbatim>\<open>_NET_WM_STATE\<close>, the dialog atom for \<^verbatim>\<open>_NET_WM_WINDOW_TYPE\<close>.\<close>

record XSizeHints =
  sh_flags :: "64 word"
  min_width :: int
  min_height :: int
  max_width :: int
  max_height :: int
  width_inc :: int
  height_inc :: int
  min_aspect_x :: int
  min_aspect_y :: int
  max_aspect_x :: int
  max_aspect_y :: int
  base_width :: int
  base_height :: int

record XWMHints =
  wmh_flags :: "64 word"
  wmh_input :: bool

record winprops =
  wa_x :: int
  wa_y :: int
  wa_width :: int
  wa_height :: int
  wa_border_width :: int
  net_wm_name :: "string option"
  wm_name :: "string option"
  transient_for :: "window option"
  class_hint :: "(string \<times> string) option"
  state_fullscreen :: bool
  type_dialog :: bool
  normal_hints :: "XSizeHints option"
  wm_hints :: "XWMHints option"

text \<open>Flag bits of \<^verbatim>\<open>X11/Xutil.h\<close>.\<close>

definition PSize :: "64 word" where "PSize = 8"
definition PMinSize :: "64 word" where "PMinSize = 16"
definition PMaxSize :: "64 word" where "PMaxSize = 32"
definition PResizeInc :: "64 word" where "PResizeInc = 64"
definition PAspect :: "64 word" where "PAspect = 128"
definition PBaseSize :: "64 word" where "PBaseSize = 256"
definition InputHint :: "64 word" where "InputHint = 1"
definition XUrgencyHint :: "64 word" where "XUrgencyHint = 256"
definition NormalState :: int where "NormalState = 1"

record Rule =
  r_class :: "string option"
  r_instance :: "string option"
  r_title :: "string option"
  r_tags :: tagmask
  r_isfloating :: bool
  r_monitor :: int

definition rules :: "Rule list" where
  "rules =
    [\<lparr>r_class = Some ''Gimp'', r_instance = None, r_title = None,
      r_tags = 0, r_isfloating = True, r_monitor = - 1\<rparr>,
     \<lparr>r_class = Some ''Firefox'', r_instance = None, r_title = None,
      r_tags = 256, r_isfloating = False, r_monitor = - 1\<rparr>]"

definition broken :: string where "broken = ''broken''"

text \<open>The struct as \<^verbatim>\<open>ecalloc\<close> returns it.\<close>

definition zero_client :: Client where
  "zero_client =
    \<lparr>name = [], mina = Fin 0, maxa = Fin 0, cx = 0, cy = 0, cw = 0, ch = 0,
     oldx = 0, oldy = 0, oldw = 0, oldh = 0, basew = 0, baseh = 0, incw = 0, inch = 0,
     maxw = 0, maxh = 0, minw = 0, minh = 0, bw = 0, oldbw = 0, tags = 0,
     isfixed = False, isfloating = False, isurgent = False, neverfocus = False,
     oldstate = False, isfullscreen = False, mon = 0, win = 0\<rparr>"

definition updatetitle :: "nat \<Rightarrow> winprops \<Rightarrow> wm \<Rightarrow> wm" where
  "updatetitle c p s =
    (let t = (case net_wm_name p of
                Some a \<Rightarrow> take 255 a
              | None \<Rightarrow> (case wm_name p of Some a \<Rightarrow> take 255 a | None \<Rightarrow> []))
     in upd_client c (\<lambda>C. C\<lparr>name := (if t = [] then broken else t)\<rparr>) s)"

text \<open>\<^verbatim>\<open>!pat || strstr(text, pat)\<close>.\<close>

definition rulematch :: "string option \<Rightarrow> string \<Rightarrow> bool" where
  "rulematch pat text = (case pat of None \<Rightarrow> True | Some a \<Rightarrow> sublist a text)"

definition applyrule :: "nat \<Rightarrow> string \<Rightarrow> string \<Rightarrow> Rule \<Rightarrow> wm \<Rightarrow> wm" where
  "applyrule c class' instance r s =
    (if rulematch (r_title r) (name (client s c)) \<and> rulematch (r_class r) class'
        \<and> rulematch (r_instance r) instance
     then
       (let s1 = upd_client c (\<lambda>C. C\<lparr>isfloating := r_isfloating r,
                                        tags := tags C OR r_tags r\<rparr>) s
        in case find (\<lambda>m. num (monitor s1 m) = r_monitor r) (mons s1) of
             Some m \<Rightarrow> upd_client c (\<lambda>C. C\<lparr>mon := m\<rparr>) s1
           | None \<Rightarrow> s1)
     else s)"

definition applyrules :: "nat \<Rightarrow> winprops \<Rightarrow> wm \<Rightarrow> wm" where
  "applyrules c p s =
    (let s1 = upd_client c (\<lambda>C. C\<lparr>isfloating := False, tags := 0\<rparr>) s;
         class' = (case class_hint p of Some (n, k) \<Rightarrow> k | None \<Rightarrow> broken);
         instance = (case class_hint p of Some (n, k) \<Rightarrow> n | None \<Rightarrow> broken);
         s2 = fold (applyrule c class' instance) rules s1;
         M = monitor s2 (mon (client s2 c))
     in upd_client c
          (\<lambda>C. C\<lparr>tags := (if tags C AND u32 TAGMASK \<noteq> 0 then tags C AND u32 TAGMASK
                            else tagset M (seltags M))\<rparr>) s2)"

definition updatewindowtype :: "nat \<Rightarrow> winprops \<Rightarrow> wm \<Rightarrow> wm" where
  "updatewindowtype c p s =
    (let s1 = (if state_fullscreen p then setfullscreen c True s else s)
     in if type_dialog p then upd_client c (\<lambda>C. C\<lparr>isfloating := True\<rparr>) s1 else s1)"

definition updatesizehints :: "nat \<Rightarrow> winprops \<Rightarrow> wm \<Rightarrow> wm" where
  "updatesizehints c p s =
    (let fl = (case normal_hints p of Some z \<Rightarrow> sh_flags z | None \<Rightarrow> PSize);
         z = (case normal_hints p of Some z \<Rightarrow> z | None \<Rightarrow>
                \<lparr>sh_flags = PSize, min_width = 0, min_height = 0, max_width = 0, max_height = 0,
                 width_inc = 0, height_inc = 0, min_aspect_x = 0, min_aspect_y = 0,
                 max_aspect_x = 0, max_aspect_y = 0, base_width = 0, base_height = 0\<rparr>);
         has = (\<lambda>b. fl AND b \<noteq> 0)
     in upd_client c
          (\<lambda>C. let C1 = (if has PBaseSize then C\<lparr>basew := base_width z, baseh := base_height z\<rparr>
                          else if has PMinSize then C\<lparr>basew := min_width z, baseh := min_height z\<rparr>
                          else C\<lparr>basew := 0, baseh := 0\<rparr>);
                    C2 = (if has PResizeInc then C1\<lparr>incw := width_inc z, inch := height_inc z\<rparr>
                          else C1\<lparr>incw := 0, inch := 0\<rparr>);
                    C3 = (if has PMaxSize then C2\<lparr>maxw := max_width z, maxh := max_height z\<rparr>
                          else C2\<lparr>maxw := 0, maxh := 0\<rparr>);
                    C4 = (if has PMinSize then C3\<lparr>minw := min_width z, minh := min_height z\<rparr>
                          else if has PBaseSize
                          then C3\<lparr>minw := base_width z, minh := base_height z\<rparr>
                          else C3\<lparr>minw := 0, minh := 0\<rparr>);
                    C5 = (if has PAspect
                          then C4\<lparr>mina := fdiv fl32 (i2f (min_aspect_y z)) (i2f (min_aspect_x z)),
                                  maxa := fdiv fl32 (i2f (max_aspect_x z)) (i2f (max_aspect_y z))\<rparr>
                          else C4\<lparr>maxa := Fin 0, mina := Fin 0\<rparr>)
                in C5\<lparr>isfixed := (maxw C5 \<noteq> 0 \<and> maxh C5 \<noteq> 0 \<and> maxw C5 = minw C5
                                      \<and> maxh C5 = minh C5)\<rparr>) s)"

definition updatewmhints :: "nat \<Rightarrow> winprops \<Rightarrow> wm \<Rightarrow> wm" where
  "updatewmhints c p s =
    (case wm_hints p of
       None \<Rightarrow> s
     | Some h \<Rightarrow>
         let urgent = (wmh_flags h AND XUrgencyHint \<noteq> 0);
             s1 = (if Some c = sel (monitor s (selmon s)) \<and> urgent
                   then xsend (XSetUrgencyHint (win (client s c)) False) s
                   else upd_client c (\<lambda>C. C\<lparr>isurgent := urgent\<rparr>) s)
         in upd_client c
              (\<lambda>C. C\<lparr>neverfocus := (if wmh_flags h AND InputHint \<noteq> 0 then \<not> wmh_input h
                                      else False)\<rparr>) s1)"

definition setclientstate :: "nat \<Rightarrow> int \<Rightarrow> wm \<Rightarrow> wm" where
  "setclientstate c st s = xsend (XSetWMState (win (client s c)) st) s"

text \<open>\<^verbatim>\<open>manage(w, wa)\<close>; \<open>c\<close> is the address \<^verbatim>\<open>ecalloc\<close> returns for the new client.\<close>

definition manage :: "nat \<Rightarrow> window \<Rightarrow> winprops \<Rightarrow> wm \<Rightarrow> wm" where
  "manage c w p s =
    (let s1 = s\<lparr>client := (client s)(c := zero_client\<lparr>win := w,
                  cx := wa_x p, oldx := wa_x p, cy := wa_y p, oldy := wa_y p,
                  cw := wa_width p, oldw := wa_width p, ch := wa_height p, oldh := wa_height p,
                  oldbw := wa_border_width p\<rparr>)\<rparr>;
         s2 = updatetitle c p s1;
         t = (case transient_for p of Some tw \<Rightarrow> wintoclient s2 tw | None \<Rightarrow> None);
         s3 = (case t of
                 Some tc \<Rightarrow> upd_client c (\<lambda>C. C\<lparr>mon := mon (client s2 tc),
                                                  tags := tags (client s2 tc)\<rparr>) s2
               | None \<Rightarrow> applyrules c p (upd_client c (\<lambda>C. C\<lparr>mon := selmon s2\<rparr>) s2));
         M = monitor s3 (mon (client s3 c));
         s4 = upd_client c (\<lambda>C. if cx C + WIDTH C > mx M + mw M
                                 then C\<lparr>cx := mx M + mw M - WIDTH C\<rparr> else C) s3;
         s5 = upd_client c (\<lambda>C. if cy C + HEIGHT C > my M + mh M
                                 then C\<lparr>cy := my M + mh M - HEIGHT C\<rparr> else C) s4;
         s6 = upd_client c (\<lambda>C. C\<lparr>cx := max (cx C) (mx M)\<rparr>) s5;
         s7 = upd_client c
                (\<lambda>C. C\<lparr>cy := max (cy C)
                   (if bar_y M = my M \<and> cx C + cw C sdiv 2 \<ge> wx M
                       \<and> cx C + cw C sdiv 2 < wx M + ww M
                    then bh s else my M)\<rparr>) s6;
         s8 = upd_client c (\<lambda>C. C\<lparr>bw := borderpx\<rparr>) s7;
         s9 = configure c (xsend (XConfigureBorder w (bw (client s8 c))) s8);
         s10 = updatewindowtype c p s9;
         s11 = updatesizehints c p s10;
         s12 = updatewmhints c p s11;
         s13 = grabbuttons c False (xsend (XSelectInput w) s12);
         trans = (case transient_for p of Some tw \<Rightarrow> tw \<noteq> 0 | None \<Rightarrow> False);
         s14 = (if \<not> isfloating (client s13 c)
                then upd_client c (\<lambda>C. C\<lparr>isfloating := trans \<or> isfixed C,
                                            oldstate := trans \<or> isfixed C\<rparr>) s13
                else s13);
         s15 = (if isfloating (client s14 c) then xsend (XRaiseWindow (win (client s14 c))) s14
                else s14);
         s16 = attachstack c (attach c s15);
         C = client s16 c;
         s17 = setclientstate c NormalState
                 (xsend (XMoveResizeWindow (win C) (cx C + 2 * sw s16) (cy C) (cw C) (ch C))
                    (xsend (XAppendClientList (win C)) s16));
         s18 = (if mon (client s17 c) = selmon s17
                then unfocus (sel (monitor s17 (selmon s17))) False s17 else s17);
         s19 = upd_monitor (mon (client s18 c)) (\<lambda>M. M\<lparr>sel := Some c\<rparr>) s18;
         s20 = arrange (Some (mon (client s19 c))) s19;
         s21 = xsend (XMapWindow (win (client s20 c))) s20
     in focus None s21)"

section \<open>Notions used to state the properties\<close>

text \<open>The geometry of a client, and a client or a state with the geometry fields (current
  and saved) blanked: two states that agree after \<open>forget_geometry\<close> differ at most in
  the geometry of their clients and in the requests they have sent.\<close>

definition geom :: "Client \<Rightarrow> rect" where
  "geom C = (cx C, cy C, cw C, ch C)"

definition nogeom :: "Client \<Rightarrow> Client" where
  "nogeom C = C\<lparr>cx := 0, cy := 0, cw := 0, ch := 0, oldx := 0, oldy := 0, oldw := 0, oldh := 0\<rparr>"

definition forget_geometry :: "wm \<Rightarrow> wm" where
  "forget_geometry s = s\<lparr>client := (\<lambda>c. nogeom (client s c)), xlog := []\<rparr>"

text \<open>A state with the saved fields (\<^verbatim>\<open>oldx\<close>, ..., \<^verbatim>\<open>oldbw\<close>, \<^verbatim>\<open>oldstate\<close>) blanked.\<close>

definition nosaved :: "Client \<Rightarrow> Client" where
  "nosaved C = C\<lparr>oldx := 0, oldy := 0, oldw := 0, oldh := 0, oldbw := 0, oldstate := False\<rparr>"

definition forget_saved :: "wm \<Rightarrow> wm" where
  "forget_saved s = s\<lparr>client := (\<lambda>c. nosaved (client s c)), xlog := []\<rparr>"

text \<open>A state with everything blanked that focusing may change: the focus stacks, the
  selections, the selected monitor, the urgency flags and the requests sent.\<close>

definition nourgent :: "Client \<Rightarrow> Client" where
  "nourgent C = C\<lparr>isurgent := False\<rparr>"

definition nofocus :: "Monitor \<Rightarrow> Monitor" where
  "nofocus M = M\<lparr>stack := [], sel := None\<rparr>"

definition forget_focus :: "wm \<Rightarrow> wm" where
  "forget_focus s = s\<lparr>client := (\<lambda>c. nourgent (client s c)),
                       monitor := (\<lambda>m. nofocus (monitor s m)), selmon := 0, xlog := []\<rparr>"

subsection \<open>The scenario of one 1920x1080 screen\<close>

text \<open>The monitor that \<^verbatim>\<open>updategeom\<close> sets up for one screen without Xinerama
  (\<^verbatim>\<open>createmon\<close>, the screen size, \<^verbatim>\<open>updatebarpos\<close>), and the state \<^verbatim>\<open>setup\<close> leaves:
  no client, no bar (\<^verbatim>\<open>bh\<close> is 0).\<close>

definition screen_monitor :: "wm \<Rightarrow> int \<Rightarrow> int \<Rightarrow> Monitor" where
  "screen_monitor s w h = updatebarpos ((createmon s)\<lparr>mw := w, ww := w, mh := h, wh := h\<rparr>)"

definition blank_wm :: wm where
  "blank_wm =
    \<lparr>client = (\<lambda>_. zero_client), monitor = (\<lambda>_. zero_monitor), mons = [1], selmon = 1,
     combo = False, bh = 0, sw = 1920, sh = 1080, root = 1, xlog = []\<rparr>"

definition init_wm :: wm where
  "init_wm = blank_wm\<lparr>monitor := (\<lambda>_. screen_monitor blank_wm 1920 1080)\<rparr>"

text \<open>A window without size hints, WM hints or transient-for hint, of a class that no rule
  matches.\<close>

definition plain_window :: winprops where
  "plain_window =
    \<lparr>wa_x = 0, wa_y = 0, wa_width = 640, wa_height = 480, wa_border_width = 1,
     net_wm_name = None, wm_name = Some ''xterm'', transient_for = None,
     class_hint = Some (''xterm'', ''XTerm''), state_fullscreen = False, type_dialog = False,
     normal_hints = None, wm_hints = None\<rparr>"

text \<open>The monitor of the scenario as \<^verbatim>\<open>tile\<close> reads it, and a tiled visible client
  without size hints and with the configured border.\<close>

definition plain_monitor :: "Monitor \<Rightarrow> bool" where
  "plain_monitor M \<longleftrightarrow> wx M = 0 \<and> wy M = 0 \<and> ww M = 1920 \<and> wh M = 1080 \<and> gappx M = 10
     \<and> mfact M = mfact_cfg \<and> nmaster M = 1"

definition plain_tiled :: "wm \<Rightarrow> nat \<Rightarrow> nat \<Rightarrow> bool" where
  "plain_tiled s m c \<longleftrightarrow>
     (let C = client s c in
      mon C = m \<and> ISVISIBLE s c \<and> \<not> isfloating C \<and> bw C = borderpx
      \<and> basew C = 0 \<and> baseh C = 0 \<and> incw C = 0 \<and> inch C = 0 \<and> maxw C = 0 \<and> maxh C = 0
      \<and> minw C = 0 \<and> minh C = 0 \<and> mina C = Fin 0 \<and> maxa C = Fin 0)"

text \<open>The states of the scenario: one, two and three plain windows mapped in turn (clients
  1, 2, 3 with windows 101, 102, 103), the second one focused as \<^verbatim>\<open>enternotify\<close> or
  \<^verbatim>\<open>buttonpress\<close> do with \<^verbatim>\<open>focus(c)\<close>, and the single window made fullscreen. No
  function reads the log of requests; each scenario state starts with an empty one.\<close>

definition quiet :: "wm \<Rightarrow> wm" where
  "quiet s = s\<lparr>xlog := []\<rparr>"

definition one_window :: wm where
  "one_window = quiet (manage 1 101 plain_window init_wm)"

definition two_windows :: wm where
  "two_windows = quiet (manage 2 102 plain_window one_window)"

definition three_windows :: wm where
  "three_windows = quiet (manage 3 103 plain_window two_windows)"

definition second_selected :: wm where
  "second_selected = quiet (focus (Some 2) three_windows)"

definition one_fullscreen :: wm where
  "one_fullscreen = quiet (setfullscreen 1 True one_window)"

text \<open>The single window after the view moved to the second tag (\<^verbatim>\<open>Mod+2\<close> is
  \<^verbatim>\<open>comboview\<close> with \<^verbatim>\<open>1 << 1\<close>): the client is no longer visible.\<close>

definition one_hidden :: wm where
  "one_hidden = quiet (comboview 2 one_window)"

text \<open>The client struct of a plain window of the scenario, with its geometry and its
  saved geometry.\<close>

definition plain_client :: "window \<Rightarrow> rect \<Rightarrow> rect \<Rightarrow> Client" where
  "plain_client w g og =
    (case (g, og) of ((x, y, w', h), (ox, oy, ow, oh)) \<Rightarrow>
       zero_client\<lparr>name := ''xterm'', cx := x, cy := y, cw := w', ch := h,
                   oldx := ox, oldy := oy, oldw := ow, oldh := oh,
                   oldbw := 1, tags := 1, mon := 1, win := w\<rparr>)"

text \<open>A \<^verbatim>\<open>WM_NORMAL_HINTS\<close> property with a width increment of 7 and a maximum size of
  1000x2000, and the state after the single window announced it (the \<^verbatim>\<open>PropertyNotify\<close>
  handler calls \<^verbatim>\<open>updatesizehints\<close> and nothing else).\<close>

definition inc_max_hints :: winprops where
  "inc_max_hints = plain_window\<lparr>normal_hints := Some
     \<lparr>sh_flags = PResizeInc OR PMaxSize, min_width = 0, min_height = 0,
      max_width = 1000, max_height = 2000, width_inc = 7, height_inc = 0,
      min_aspect_x = 0, min_aspect_y = 0, max_aspect_x = 0, max_aspect_y = 0,
      base_width = 0, base_height = 0\<rparr>\<rparr>"

definition one_hinted :: wm where
  "one_hinted = quiet (updatesizehints 1 inc_max_hints one_window)"

text \<open>The hints of a terminal: a base size of 19x4, increments of 6x13 (one character
  cell) and a minimum size of one cell, 25x17; and the state after the single window
  announced them.\<close>

definition cell_hints :: winprops where
  "cell_hints = plain_window\<lparr>normal_hints := Some
     \<lparr>sh_flags = PResizeInc OR PMinSize OR PBaseSize, min_width = 25, min_height = 17,
      max_width = 0, max_height = 0, width_inc = 6, height_inc = 13,
      min_aspect_x = 0, min_aspect_y = 0, max_aspect_x = 0, max_aspect_y = 0,
      base_width = 19, base_height = 4\<rparr>\<rparr>"

definition one_terminal :: wm where
  "one_terminal = quiet (updatesizehints 1 cell_hints one_window)"

subsection \<open>Tiled clients and the selection\<close>

definition tiled :: "wm \<Rightarrow> nat \<Rightarrow> bool" where
  "tiled s c \<longleftrightarrow> \<not> isfloating (client s c) \<and> ISVISIBLE s c"


text \<open>Every client on the focus stack of the selected monitor belongs to that monitor:
  \<^verbatim>\<open>attachstack\<close> puts a client on the stack of \<^verbatim>\<open>c->mon\<close>.\<close>

definition stack_owned :: "wm \<Rightarrow> bool" where
  "stack_owned s \<longleftrightarrow>
     (\<forall>c \<in> set (stack (monitor s (selmon s))). mon (client s c) = selmon s)"

subsection \<open>Size hints that agree with one another\<close>

text \<open>No aspect limits, a minimum size not below the base size, and a maximum size (when
  set) that is the base size plus a whole number of increments.\<close>

definition aligned_hints :: "Client \<Rightarrow> bool" where
  "aligned_hints C \<longleftrightarrow>
     \<not> (flt (Fin 0) (mina C) \<and> flt (Fin 0) (maxa C))
     \<and> basew C \<le> minw C \<and> baseh C \<le> minh C
     \<and> (maxw C = 0 \<or> incstep (incw C) (maxw C - basew C) = maxw C - basew C)
     \<and> (maxh C = 0 \<or> incstep (inch C) (maxh C - baseh C) = maxh C - baseh C)"

text \<open>One dimension through the block guarded by \<^verbatim>\<open>resizehints || c->isfloating\<close> when
  no aspect limits are set: the base is taken off (before or after the aspect step), the
  increment is applied, the base is put back, then the minimum and the maximum.\<close>

definition hstep :: "int \<Rightarrow> int \<Rightarrow> int \<Rightarrow> int \<Rightarrow> int \<Rightarrow> int" where
  "hstep b inc mn mx' v = maxstep mx' (max (incstep inc (v - b) + b) mn)"

text \<open>The origin of a rectangle lies where \<^verbatim>\<open>applysizehints\<close> does not move it: on the
  screen when \<^verbatim>\<open>interact\<close>, in the window area of the client's monitor otherwise.\<close>

definition origin_inside :: "wm \<Rightarrow> nat \<Rightarrow> rect \<Rightarrow> bool \<Rightarrow> bool" where
  "origin_inside s c r interact =
    (case r of (x, y, w, h) \<Rightarrow>
       let M = monitor s (mon (client s c)) in
       if interact then 0 \<le> x \<and> x \<le> sw s \<and> 0 \<le> y \<and> y \<le> sh s
       else wx M \<le> x \<and> x < wx M + ww M \<and> wy M \<le> y \<and> y < wy M + wh M)"

subsection \<open>Sequences of master-area operations\<close>

datatype mop = SetMfact "cfloat option" | IncNMaster int

fun mop_step :: "mop \<Rightarrow> wm \<Rightarrow> wm" where
  "mop_step (SetMfact a) s = setmfact a s"
| "mop_step (IncNMaster i) s = incnmaster i s"

fun run_mops :: "mop list \<Rightarrow> wm \<Rightarrow> wm" where
  "run_mops [] s = s"
| "run_mops (p # ps) s = run_mops ps (mop_step p s)"

text \<open>The operations that stay within what the types can hold: no \<^verbatim>\<open>setmfact\<close> argument is a
  NaN, and no \<^verbatim>\<open>incnmaster\<close> sum leaves the range of \<^verbatim>\<open>int\<close>.\<close>

fun mops_in_range :: "mop list \<Rightarrow> wm \<Rightarrow> bool" where
  "mops_in_range [] s = True"
| "mops_in_range (SetMfact a # ps) s =
     (a \<noteq> Some NaN \<and> mops_in_range ps (mop_step (SetMfact a) s))"
| "mops_in_range (IncNMaster i # ps) s =
     (nmaster (monitor s (selmon s)) + i < 2 ^ 31
      \<and> mops_in_range ps (mop_step (IncNMaster i) s))"

text \<open>The value that \<^verbatim>\<open>setmfact\<close> computes in \<^verbatim>\<open>f\<close> from a non-null argument, and the values
  that are infinite or (as real numbers) outside [0.05, 0.95].\<close>

definition new_mfact :: "cfloat \<Rightarrow> Monitor \<Rightarrow> cfloat" where
  "new_mfact a M = (if flt a (Fin 1) then fadd fl32 a (mfact M)
                    else fcast fl32 (fsub fl64 a (Fin 1)))"

definition outside_range :: "cfloat \<Rightarrow> bool" where
  "outside_range f =
    (case f of Fin q \<Rightarrow> q < 1 / 20 \<or> 19 / 20 < q | PInf \<Rightarrow> True | NInf \<Rightarrow> True
     | NaN \<Rightarrow> False)"

definition master_range :: "Monitor \<Rightarrow> bool" where
  "master_range M \<longleftrightarrow>
     (case mfact M of Fin q \<Rightarrow> 1 / 20 \<le> q \<and> q \<le> 19 / 20 | _ \<Rightarrow> False) \<and> 0 \<le> nmaster M"

section \<open>Basic facts\<close>

subsection \<open>State accessors\<close>

lemma monitor_xsend [simp]: "monitor (xsend r s) = monitor s"
  and client_xsend [simp]: "client (xsend r s) = client s"
  and mons_xsend [simp]: "mons (xsend r s) = mons s"
  and selmon_xsend [simp]: "selmon (xsend r s) = selmon s"
  and combo_xsend [simp]: "combo (xsend r s) = combo s"
  and bh_xsend [simp]: "bh (xsend r s) = bh s"
  and sw_xsend [simp]: "sw (xsend r s) = sw s"
  and sh_xsend [simp]: "sh (xsend r s) = sh s"
  and root_xsend [simp]: "root (xsend r s) = root s"
  and xlog_xsend [simp]: "xlog (xsend r s) = xlog s @ [r]"
  by (simp_all add: xsend_def)

lemma monitor_upd_client [simp]: "monitor (upd_client c f s) = monitor s"
  and mons_upd_client [simp]: "mons (upd_client c f s) = mons s"
  and selmon_upd_client [simp]: "selmon (upd_client c f s) = selmon s"
  and combo_upd_client [simp]: "combo (upd_client c f s) = combo s"
  and bh_upd_client [simp]: "bh (upd_client c f s) = bh s"
  and sw_upd_client [simp]: "sw (upd_client c f s) = sw s"
  and sh_upd_client [simp]: "sh (upd_client c f s) = sh s"
  and root_upd_client [simp]: "root (upd_client c f s) = root s"
  and xlog_upd_client [simp]: "xlog (upd_client c f s) = xlog s"
  by (simp_all add: upd_client_def)

lemma client_upd_client [simp]:
  "client (upd_client c f s) c' = (if c' = c then f (client s c) else client s c')"
  by (simp add: upd_client_def)

lemma client_upd_monitor [simp]: "client (upd_monitor m f s) = client s"
  and mons_upd_monitor [simp]: "mons (upd_monitor m f s) = mons s"
  and selmon_upd_monitor [simp]: "selmon (upd_monitor m f s) = selmon s"
  and combo_upd_monitor [simp]: "combo (upd_monitor m f s) = combo s"
  and bh_upd_monitor [simp]: "bh (upd_monitor m f s) = bh s"
  and sw_upd_monitor [simp]: "sw (upd_monitor m f s) = sw s"
  and sh_upd_monitor [simp]: "sh (upd_monitor m f s) = sh s"
  and root_upd_monitor [simp]: "root (upd_monitor m f s) = root s"
  and xlog_upd_monitor [simp]: "xlog (upd_monitor m f s) = xlog s"
  by (simp_all add: upd_monitor_def)

lemma monitor_upd_monitor [simp]:
  "monitor (upd_monitor m f s) m' = (if m' = m then f (monitor s m) else monitor s m')"
  by (simp add: upd_monitor_def)

lemma ISVISIBLE_xsend [simp]: "ISVISIBLE (xsend r s) c = ISVISIBLE s c"
  by (simp add: ISVISIBLE_def)

subsection \<open>Blanked clients and states\<close>

lemma nogeom_fields [simp]:
  "name (nogeom C) = name C" "mina (nogeom C) = mina C" "maxa (nogeom C) = maxa C"
  "basew (nogeom C) = basew C" "baseh (nogeom C) = baseh C"
  "incw (nogeom C) = incw C" "inch (nogeom C) = inch C"
  "maxw (nogeom C) = maxw C" "maxh (nogeom C) = maxh C"
  "minw (nogeom C) = minw C" "minh (nogeom C) = minh C"
  "bw (nogeom C) = bw C" "oldbw (nogeom C) = oldbw C" "tags (nogeom C) = tags C"
  "isfixed (nogeom C) = isfixed C" "isfloating (nogeom C) = isfloating C"
  "isurgent (nogeom C) = isurgent C" "neverfocus (nogeom C) = neverfocus C"
  "oldstate (nogeom C) = oldstate C" "isfullscreen (nogeom C) = isfullscreen C"
  "mon (nogeom C) = mon C" "win (nogeom C) = win C"
  by (simp_all add: nogeom_def)

lemma nogeom_eqD:
  assumes "nogeom A = nogeom B"
  shows "name A = name B" "mina A = mina B" "maxa A = maxa B"
    "basew A = basew B" "baseh A = baseh B" "incw A = incw B" "inch A = inch B"
    "maxw A = maxw B" "maxh A = maxh B" "minw A = minw B" "minh A = minh B"
    "bw A = bw B" "oldbw A = oldbw B" "tags A = tags B"
    "isfixed A = isfixed B" "isfloating A = isfloating B"
    "isurgent A = isurgent B" "neverfocus A = neverfocus B"
    "oldstate A = oldstate B" "isfullscreen A = isfullscreen B"
    "mon A = mon B" "win A = win B"
proof -
  have *: "f (nogeom A) = f (nogeom B)" for f :: "Client \<Rightarrow> 'a"
    using assms by simp
  show "name A = name B" using * [of name] by simp
  show "mina A = mina B" using * [of mina] by simp
  show "maxa A = maxa B" using * [of maxa] by simp
  show "basew A = basew B" using * [of basew] by simp
  show "baseh A = baseh B" using * [of baseh] by simp
  show "incw A = incw B" using * [of incw] by simp
  show "inch A = inch B" using * [of inch] by simp
  show "maxw A = maxw B" using * [of maxw] by simp
  show "maxh A = maxh B" using * [of maxh] by simp
  show "minw A = minw B" using * [of minw] by simp
  show "minh A = minh B" using * [of minh] by simp
  show "bw A = bw B" using * [of bw] by simp
  show "oldbw A = oldbw B" using * [of oldbw] by simp
  show "tags A = tags B" using * [of tags] by simp
  show "isfixed A = isfixed B" using * [of isfixed] by simp
  show "isfloating A = isfloating B" using * [of isfloating] by simp
  show "isurgent A = isurgent B" using * [of isurgent] by simp
  show "neverfocus A = neverfocus B" using * [of neverfocus] by simp
  show "oldstate A = oldstate B" using * [of oldstate] by simp
  show "isfullscreen A = isfullscreen B" using * [of isfullscreen] by simp
  show "mon A = mon B" using * [of mon] by simp
  show "win A = win B" using * [of win] by simp
qed

lemma forget_geometry_fields [simp]:
  "monitor (forget_geometry s) = monitor s" "mons (forget_geometry s) = mons s"
  "selmon (forget_geometry s) = selmon s" "combo (forget_geometry s) = combo s"
  "bh (forget_geometry s) = bh s" "sw (forget_geometry s) = sw s"
  "sh (forget_geometry s) = sh s" "root (forget_geometry s) = root s"
  "client (forget_geometry s) c = nogeom (client s c)"
  by (simp_all add: forget_geometry_def)

lemma forget_geometry_eqD:
  assumes "forget_geometry t = forget_geometry s"
  shows "monitor t = monitor s" "mons t = mons s" "selmon t = selmon s" "combo t = combo s"
    "bh t = bh s" "sw t = sw s" "sh t = sh s" "root t = root s"
    "nogeom (client t c) = nogeom (client s c)"
proof -
  have *: "f (forget_geometry t) = f (forget_geometry s)" for f :: "wm \<Rightarrow> 'a"
    using assms by simp
  show "monitor t = monitor s" using * [of monitor] by simp
  show "mons t = mons s" using * [of mons] by simp
  show "selmon t = selmon s" using * [of selmon] by simp
  show "combo t = combo s" using * [of combo] by simp
  show "bh t = bh s" using * [of bh] by simp
  show "sw t = sw s" using * [of sw] by simp
  show "sh t = sh s" using * [of sh] by simp
  show "root t = root s" using * [of root] by simp
  show "nogeom (client t c) = nogeom (client s c)" using * [of "\<lambda>u. client u c"] by simp
qed

lemma forget_geometry_xsend [simp]: "forget_geometry (xsend r s) = forget_geometry s"
  by (simp add: forget_geometry_def xsend_def)

lemma ISVISIBLE_forget:
  assumes "forget_geometry t = forget_geometry s"
  shows "ISVISIBLE t c = ISVISIBLE s c"
  using forget_geometry_eqD(1) [OF assms] nogeom_eqD(14,21) [OF forget_geometry_eqD(9) [OF assms, of c]]
  by (simp add: ISVISIBLE_def)

subsection \<open>Resizing\<close>

lemma applysizehints_changed:
  "snd (applysizehints s c r i) \<longleftrightarrow> fst (applysizehints s c r i) \<noteq> geom (client s c)"
proof -
  obtain x0 y0 w0 h0 where r: "r = (x0, y0, w0, h0)"
    by (cases r) auto
  obtain x1 y1 p where
    "applysizehints s c r i =
       ((x1, y1, fst p, snd p),
        x1 \<noteq> cx (client s c) \<or> y1 \<noteq> cy (client s c) \<or> fst p \<noteq> cw (client s c)
          \<or> snd p \<noteq> ch (client s c))"
    unfolding applysizehints_def Let_def r prod.case by blast
  then show ?thesis
    by (auto simp: geom_def prod_eq_iff)
qed

lemma client_resizeclient:
  "client (resizeclient c x y w h s) c' =
     (if c' = c
      then (client s c)\<lparr>oldx := cx (client s c), cx := x, oldy := cy (client s c), cy := y,
             oldw := cw (client s c), cw := w, oldh := ch (client s c), ch := h\<rparr>
      else client s c')"
  by (simp add: resizeclient_def configure_def Let_def)

lemma forget_geometry_resizeclient [simp]:
  "forget_geometry (resizeclient c x y w h s) = forget_geometry s"
  by (auto simp: forget_geometry_def resizeclient_def configure_def Let_def xsend_def
      upd_client_def nogeom_def fun_eq_iff)

lemma forget_geometry_resize [simp]:
  "forget_geometry (resize c x y w h i s) = forget_geometry s"
  by (simp add: resize_def split: prod.splits)

lemma client_resize_other [simp]:
  "c' \<noteq> c \<Longrightarrow> client (resize c x y w h i s) c' = client s c'"
  by (simp add: resize_def client_resizeclient split: prod.splits)

lemma geom_resize [simp]:
  "geom (client (resize c x y w h i s) c) = fst (applysizehints s c (x, y, w, h) i)"
proof (cases "snd (applysizehints s c (x, y, w, h) i)")
  case True
  then show ?thesis
    by (auto simp: resize_def client_resizeclient geom_def split: prod.splits)
next
  case False
  then have "fst (applysizehints s c (x, y, w, h) i) = geom (client s c)"
    by (simp add: applysizehints_changed)
  with False show ?thesis
    by (auto simp: resize_def split: prod.splits)
qed

lemmas resize_frame [simp] = forget_geometry_eqD(1-8) [OF forget_geometry_resize]
lemmas resize_fields [simp] = nogeom_eqD [OF forget_geometry_eqD(9) [OF forget_geometry_resize]]

lemma ISVISIBLE_resize [simp]: "ISVISIBLE (resize c x y w h i s) c' = ISVISIBLE s c'"
  by (rule ISVISIBLE_forget) simp

lemma geom_fields_resize [simp]:
  "cx (client (resize c x y w h i s) c) = fst (fst (applysizehints s c (x, y, w, h) i))"
  "cy (client (resize c x y w h i s) c) = fst (snd (fst (applysizehints s c (x, y, w, h) i)))"
  "cw (client (resize c x y w h i s) c) = fst (snd (snd (fst (applysizehints s c (x, y, w, h) i))))"
  "ch (client (resize c x y w h i s) c) = snd (snd (snd (fst (applysizehints s c (x, y, w, h) i))))"
  using geom_resize [of c x y w h i s] by (simp_all add: geom_def prod_eq_iff)

subsection \<open>Layout changes geometry only\<close>

lemma forget_geometry_showhide [simp]: "forget_geometry (showhide cs s) = forget_geometry s"
  by (induction cs arbitrary: s) (simp_all add: Let_def)

lemma forget_geometry_tile_loop [simp]:
  "forget_geometry (tile_loop m n mw' i my' ty cs s) = forget_geometry s"
  by (induction cs arbitrary: i my' ty s) (simp_all add: Let_def)

lemma forget_geometry_tile [simp]: "forget_geometry (tile m s) = forget_geometry s"
  by (simp add: tile_def Let_def)

lemma forget_geometry_restack [simp]: "forget_geometry (restack m s) = forget_geometry s"
  by (simp add: restack_def Let_def split: option.splits)

lemma forget_geometry_fold:
  assumes "\<And>m t. forget_geometry (f m t) = forget_geometry t"
  shows "forget_geometry (fold f ms s) = forget_geometry s"
  using assms by (induction ms arbitrary: s) simp_all

lemma forget_geometry_arrange [simp]: "forget_geometry (arrange mo s) = forget_geometry s"
  by (cases mo) (simp_all add: arrange_def forget_geometry_fold)

lemmas arrange_frame [simp] = forget_geometry_eqD(1-8) [OF forget_geometry_arrange]
lemmas arrange_fields [simp] = nogeom_eqD [OF forget_geometry_eqD(9) [OF forget_geometry_arrange]]

lemma ISVISIBLE_arrange [simp]: "ISVISIBLE (arrange mo s) c = ISVISIBLE s c"
  by (rule ISVISIBLE_forget) simp

lemmas tile_frame [simp] = forget_geometry_eqD(1-8) [OF forget_geometry_tile]
lemmas tile_fields [simp] = nogeom_eqD [OF forget_geometry_eqD(9) [OF forget_geometry_tile]]

subsection \<open>Focusing changes the focus data only\<close>

lemma nourgent_fields [simp]:
  "name (nourgent C) = name C" "mina (nourgent C) = mina C" "maxa (nourgent C) = maxa C"
  "cx (nourgent C) = cx C" "cy (nourgent C) = cy C" "cw (nourgent C) = cw C" "ch (nourgent C) = ch C"
  "oldx (nourgent C) = oldx C" "oldy (nourgent C) = oldy C"
  "oldw (nourgent C) = oldw C" "oldh (nourgent C) = oldh C"
  "basew (nourgent C) = basew C" "baseh (nourgent C) = baseh C"
  "incw (nourgent C) = incw C" "inch (nourgent C) = inch C"
  "maxw (nourgent C) = maxw C" "maxh (nourgent C) = maxh C"
  "minw (nourgent C) = minw C" "minh (nourgent C) = minh C"
  "bw (nourgent C) = bw C" "oldbw (nourgent C) = oldbw C" "tags (nourgent C) = tags C"
  "isfixed (nourgent C) = isfixed C" "isfloating (nourgent C) = isfloating C"
  "neverfocus (nourgent C) = neverfocus C"
  "oldstate (nourgent C) = oldstate C" "isfullscreen (nourgent C) = isfullscreen C"
  "mon (nourgent C) = mon C" "win (nourgent C) = win C"
  by (simp_all add: nourgent_def)

lemma nourgent_eqD:
  assumes "nourgent A = nourgent B"
  shows "name A = name B" "mina A = mina B" "maxa A = maxa B"
    "cx A = cx B" "cy A = cy B" "cw A = cw B" "ch A = ch B"
    "oldx A = oldx B" "oldy A = oldy B" "oldw A = oldw B" "oldh A = oldh B"
    "basew A = basew B" "baseh A = baseh B" "incw A = incw B" "inch A = inch B"
    "maxw A = maxw B" "maxh A = maxh B" "minw A = minw B" "minh A = minh B"
    "bw A = bw B" "oldbw A = oldbw B" "tags A = tags B"
    "isfixed A = isfixed B" "isfloating A = isfloating B" "neverfocus A = neverfocus B"
    "oldstate A = oldstate B" "isfullscreen A = isfullscreen B"
    "mon A = mon B" "win A = win B" "geom A = geom B"
proof -
  have *: "f (nourgent A) = f (nourgent B)" for f :: "Client \<Rightarrow> 'a"
    using assms by simp
  show "name A = name B" using * [of name] by simp
  show "mina A = mina B" using * [of mina] by simp
  show "maxa A = maxa B" using * [of maxa] by simp
  show "cx A = cx B" using * [of cx] by simp
  show "cy A = cy B" using * [of cy] by simp
  show "cw A = cw B" using * [of cw] by simp
  show "ch A = ch B" using * [of ch] by simp
  show "oldx A = oldx B" using * [of oldx] by simp
  show "oldy A = oldy B" using * [of oldy] by simp
  show "oldw A = oldw B" using * [of oldw] by simp
  show "oldh A = oldh B" using * [of oldh] by simp
  show "basew A = basew B" using * [of basew] by simp
  show "baseh A = baseh B" using * [of baseh] by simp
  show "incw A = incw B" using * [of incw] by simp
  show "inch A = inch B" using * [of inch] by simp
  show "maxw A = maxw B" using * [of maxw] by simp
  show "maxh A = maxh B" using * [of maxh] by simp
  show "minw A = minw B" using * [of minw] by simp
  show "minh A = minh B" using * [of minh] by simp
  show "bw A = bw B" using * [of bw] by simp
  show "oldbw A = oldbw B" using * [of oldbw] by simp
  show "tags A = tags B" using * [of tags] by simp
  show "isfixed A = isfixed B" using * [of isfixed] by simp
  show "isfloating A = isfloating B" using * [of isfloating] by simp
  show "neverfocus A = neverfocus B" using * [of neverfocus] by simp
  show "oldstate A = oldstate B" using * [of oldstate] by simp
  show "isfullscreen A = isfullscreen B" using * [of isfullscreen] by simp
  show "mon A = mon B" using * [of mon] by simp
  show "win A = win B" using * [of win] by simp
  show "geom A = geom B" using * [of cx] * [of cy] * [of cw] * [of ch] by (simp add: geom_def)
qed

lemma nofocus_fields [simp]:
  "mfact (nofocus M) = mfact M" "nmaster (nofocus M) = nmaster M" "num (nofocus M) = num M"
  "bar_y (nofocus M) = bar_y M" "mon_bh (nofocus M) = mon_bh M"
  "mx (nofocus M) = mx M" "my (nofocus M) = my M" "mw (nofocus M) = mw M" "mh (nofocus M) = mh M"
  "wx (nofocus M) = wx M" "wy (nofocus M) = wy M" "ww (nofocus M) = ww M" "wh (nofocus M) = wh M"
  "gappx (nofocus M) = gappx M" "seltags (nofocus M) = seltags M" "tagset (nofocus M) = tagset M"
  "clients (nofocus M) = clients M" "barwin (nofocus M) = barwin M"
  "traywin (nofocus M) = traywin M"
  by (simp_all add: nofocus_def)

lemma nofocus_eqD:
  assumes "nofocus A = nofocus B"
  shows "mfact A = mfact B" "nmaster A = nmaster B" "num A = num B"
    "bar_y A = bar_y B" "mon_bh A = mon_bh B"
    "mx A = mx B" "my A = my B" "mw A = mw B" "mh A = mh B"
    "wx A = wx B" "wy A = wy B" "ww A = ww B" "wh A = wh B"
    "gappx A = gappx B" "seltags A = seltags B" "tagset A = tagset B"
    "clients A = clients B" "barwin A = barwin B" "traywin A = traywin B"
proof -
  have *: "f (nofocus A) = f (nofocus B)" for f :: "Monitor \<Rightarrow> 'a"
    using assms by simp
  show "mfact A = mfact B" using * [of mfact] by simp
  show "nmaster A = nmaster B" using * [of nmaster] by simp
  show "num A = num B" using * [of num] by simp
  show "bar_y A = bar_y B" using * [of bar_y] by simp
  show "mon_bh A = mon_bh B" using * [of mon_bh] by simp
  show "mx A = mx B" using * [of mx] by simp
  show "my A = my B" using * [of my] by simp
  show "mw A = mw B" using * [of mw] by simp
  show "mh A = mh B" using * [of mh] by simp
  show "wx A = wx B" using * [of wx] by simp
  show "wy A = wy B" using * [of wy] by simp
  show "ww A = ww B" using * [of ww] by simp
  show "wh A = wh B" using * [of wh] by simp
  show "gappx A = gappx B" using * [of gappx] by simp
  show "seltags A = seltags B" using * [of seltags] by simp
  show "tagset A = tagset B" using * [of tagset] by simp
  show "clients A = clients B" using * [of clients] by simp
  show "barwin A = barwin B" using * [of barwin] by simp
  show "traywin A = traywin B" using * [of traywin] by simp
qed

lemma forget_focus_fields [simp]:
  "mons (forget_focus s) = mons s" "combo (forget_focus s) = combo s"
  "bh (forget_focus s) = bh s" "sw (forget_focus s) = sw s"
  "sh (forget_focus s) = sh s" "root (forget_focus s) = root s"
  "client (forget_focus s) c = nourgent (client s c)"
  "monitor (forget_focus s) m = nofocus (monitor s m)"
  by (simp_all add: forget_focus_def)

lemma forget_focus_eqD:
  assumes "forget_focus t = forget_focus s"
  shows "mons t = mons s" "combo t = combo s" "bh t = bh s" "sw t = sw s" "sh t = sh s"
    "root t = root s" "nourgent (client t c) = nourgent (client s c)"
    "nofocus (monitor t m) = nofocus (monitor s m)"
proof -
  have *: "f (forget_focus t) = f (forget_focus s)" for f :: "wm \<Rightarrow> 'a"
    using assms by simp
  show "mons t = mons s" using * [of mons] by simp
  show "combo t = combo s" using * [of combo] by simp
  show "bh t = bh s" using * [of bh] by simp
  show "sw t = sw s" using * [of sw] by simp
  show "sh t = sh s" using * [of sh] by simp
  show "root t = root s" using * [of root] by simp
  show "nourgent (client t c) = nourgent (client s c)" using * [of "\<lambda>u. client u c"] by simp
  show "nofocus (monitor t m) = nofocus (monitor s m)" using * [of "\<lambda>u. monitor u m"] by simp
qed

lemma forget_focus_xsend [simp]: "forget_focus (xsend r s) = forget_focus s"
  by (simp add: forget_focus_def xsend_def)

lemma forget_focus_selmon [simp]: "forget_focus (s\<lparr>selmon := m\<rparr>) = forget_focus s"
  by (simp add: forget_focus_def)

lemma forget_focus_upd_monitor:
  assumes "\<And>M. nofocus (f M) = nofocus M"
  shows "forget_focus (upd_monitor m f s) = forget_focus s"
  using assms by (auto simp: forget_focus_def upd_monitor_def fun_eq_iff)

lemma forget_focus_upd_client:
  assumes "\<And>C. nourgent (f C) = nourgent C"
  shows "forget_focus (upd_client c f s) = forget_focus s"
  using assms by (auto simp: forget_focus_def upd_client_def fun_eq_iff)

lemma forget_focus_grabbuttons [simp]: "forget_focus (grabbuttons c b s) = forget_focus s"
  by (simp add: grabbuttons_def)

lemma forget_focus_unfocus [simp]: "forget_focus (unfocus co b s) = forget_focus s"
  by (simp add: unfocus_def Let_def split: option.splits)

lemma forget_focus_seturgent [simp]: "forget_focus (seturgent c u s) = forget_focus s"
  by (simp add: seturgent_def forget_focus_upd_client nourgent_def)

lemma forget_focus_setfocus [simp]: "forget_focus (setfocus c s) = forget_focus s"
  by (simp add: setfocus_def Let_def)

lemma forget_focus_attachstack [simp]: "forget_focus (attachstack c s) = forget_focus s"
  by (simp add: attachstack_def forget_focus_upd_monitor nofocus_def)

lemma forget_focus_detachstack [simp]: "forget_focus (detachstack c s) = forget_focus s"
  by (simp add: detachstack_def Let_def forget_focus_upd_monitor nofocus_def)

lemma forget_focus_focus [simp]: "forget_focus (focus co s) = forget_focus s"
  by (simp add: focus_def Let_def forget_focus_upd_monitor nofocus_def split: option.splits)

lemmas focus_frame [simp] = forget_focus_eqD(1-6) [OF forget_focus_focus]
lemmas focus_fields [simp] = nourgent_eqD [OF forget_focus_eqD(7) [OF forget_focus_focus]]
lemmas focus_monitor_fields [simp] = nofocus_eqD [OF forget_focus_eqD(8) [OF forget_focus_focus]]

lemma ISVISIBLE_forget_focus:
  assumes "forget_focus t = forget_focus s"
  shows "ISVISIBLE t c = ISVISIBLE s c"
  using nourgent_eqD(22,28) [OF forget_focus_eqD(7) [OF assms, of c]]
    nofocus_eqD(15,16) [OF forget_focus_eqD(8) [OF assms]]
  by (simp add: ISVISIBLE_def Let_def)

lemma ISVISIBLE_focus [simp]: "ISVISIBLE (focus co s) c = ISVISIBLE s c"
  by (rule ISVISIBLE_forget_focus) simp

subsection \<open>Layout leaves hidden clients alone\<close>

lemma client_showhide_hidden:
  "\<not> ISVISIBLE s c \<Longrightarrow> client (showhide cs s) c = client s c"
proof (induction cs arbitrary: s)
  case Nil
  then show ?case by simp
next
  case (Cons a cs)
  show ?case
  proof (cases "ISVISIBLE s a")
    case True
    with Cons.prems have "a \<noteq> c" by auto
    with True Cons show ?thesis by (simp add: Let_def)
  next
    case False
    with Cons show ?thesis by (simp add: Let_def)
  qed
qed

lemma client_tile_loop_hidden:
  "\<not> ISVISIBLE s c \<Longrightarrow> client (tile_loop m n mw' i my' ty cs s) c = client s c"
proof (induction cs arbitrary: i my' ty s)
  case Nil
  then show ?case by simp
next
  case (Cons a cs)
  show ?case
  proof (cases "isfloating (client s a) \<or> \<not> ISVISIBLE s a")
    case True
    with Cons show ?thesis by simp
  next
    case False
    with Cons.prems have "a \<noteq> c" by auto
    with False Cons show ?thesis by (simp add: Let_def)
  qed
qed

lemma client_tile_hidden: "\<not> ISVISIBLE s c \<Longrightarrow> client (tile m s) c = client s c"
  by (simp add: tile_def Let_def client_tile_loop_hidden)

lemma client_restack [simp]: "client (restack m s) = client s"
  by (simp add: restack_def Let_def split: option.splits)

lemma ISVISIBLE_showhide [simp]: "ISVISIBLE (showhide cs s) c = ISVISIBLE s c"
  by (rule ISVISIBLE_forget) simp

lemma ISVISIBLE_tile [simp]: "ISVISIBLE (tile m s) c = ISVISIBLE s c"
  by (rule ISVISIBLE_forget) simp

lemma client_arrange_hidden:
  assumes "\<not> ISVISIBLE s c"
  shows "client (arrange mo s) c = client s c"
proof (cases mo)
  case (Some m)
  with assms show ?thesis
    by (simp add: arrange_def client_tile_hidden client_showhide_hidden)
next
  case None
  have a: "\<not> ISVISIBLE t c \<Longrightarrow>
      client (fold (\<lambda>m t. showhide (stack (monitor t m)) t) ms t) c = client t c
      \<and> \<not> ISVISIBLE (fold (\<lambda>m t. showhide (stack (monitor t m)) t) ms t) c" for ms t
    by (induction ms arbitrary: t) (simp_all add: client_showhide_hidden)
  have b: "\<not> ISVISIBLE t c \<Longrightarrow> client (fold tile ms t) c = client t c" for ms t
    by (induction ms arbitrary: t) (simp_all add: client_tile_hidden)
  from None assms a [of s "mons s"] b show ?thesis
    by (simp add: arrange_def)
qed

subsection \<open>Layout does not read the saved fields\<close>

lemma nosaved_fields [simp]:
  "name (nosaved C) = name C" "mina (nosaved C) = mina C" "maxa (nosaved C) = maxa C"
  "cx (nosaved C) = cx C" "cy (nosaved C) = cy C" "cw (nosaved C) = cw C" "ch (nosaved C) = ch C"
  "basew (nosaved C) = basew C" "baseh (nosaved C) = baseh C"
  "incw (nosaved C) = incw C" "inch (nosaved C) = inch C"
  "maxw (nosaved C) = maxw C" "maxh (nosaved C) = maxh C"
  "minw (nosaved C) = minw C" "minh (nosaved C) = minh C"
  "bw (nosaved C) = bw C" "tags (nosaved C) = tags C"
  "isfixed (nosaved C) = isfixed C" "isfloating (nosaved C) = isfloating C"
  "isurgent (nosaved C) = isurgent C" "neverfocus (nosaved C) = neverfocus C"
  "isfullscreen (nosaved C) = isfullscreen C"
  "mon (nosaved C) = mon C" "win (nosaved C) = win C"
  "geom (nosaved C) = geom C" "WIDTH (nosaved C) = WIDTH C" "HEIGHT (nosaved C) = HEIGHT C"
  by (simp_all add: nosaved_def geom_def WIDTH_def HEIGHT_def)

lemma nosaved_eqD:
  assumes "nosaved A = nosaved B"
  shows "cx A = cx B" "cy A = cy B" "cw A = cw B" "ch A = ch B"
    "bw A = bw B" "tags A = tags B" "isfloating A = isfloating B"
    "isfullscreen A = isfullscreen B" "mon A = mon B" "win A = win B"
    "geom A = geom B" "HEIGHT A = HEIGHT B" "WIDTH A = WIDTH B"
proof -
  have *: "f (nosaved A) = f (nosaved B)" for f :: "Client \<Rightarrow> 'a"
    using assms by simp
  show "cx A = cx B" using * [of cx] by simp
  show "cy A = cy B" using * [of cy] by simp
  show "cw A = cw B" using * [of cw] by simp
  show "ch A = ch B" using * [of ch] by simp
  show "bw A = bw B" using * [of bw] by simp
  show "tags A = tags B" using * [of tags] by simp
  show "isfloating A = isfloating B" using * [of isfloating] by simp
  show "isfullscreen A = isfullscreen B" using * [of isfullscreen] by simp
  show "mon A = mon B" using * [of mon] by simp
  show "win A = win B" using * [of win] by simp
  show "geom A = geom B" using * [of geom] by simp
  show "HEIGHT A = HEIGHT B" using * [of HEIGHT] by simp
  show "WIDTH A = WIDTH B" using * [of WIDTH] by simp
qed

lemma forget_saved_fields [simp]:
  "monitor (forget_saved s) = monitor s" "mons (forget_saved s) = mons s"
  "selmon (forget_saved s) = selmon s" "combo (forget_saved s) = combo s"
  "bh (forget_saved s) = bh s" "sw (forget_saved s) = sw s"
  "sh (forget_saved s) = sh s" "root (forget_saved s) = root s"
  "client (forget_saved s) c = nosaved (client s c)"
  by (simp_all add: forget_saved_def)

lemma forget_saved_eqD:
  assumes "forget_saved s = forget_saved t"
  shows "monitor s = monitor t" "mons s = mons t" "selmon s = selmon t" "combo s = combo t"
    "bh s = bh t" "sw s = sw t" "sh s = sh t" "root s = root t"
    "nosaved (client s c) = nosaved (client t c)"
proof -
  have *: "f (forget_saved s) = f (forget_saved t)" for f :: "wm \<Rightarrow> 'a"
    using assms by simp
  show "monitor s = monitor t" using * [of monitor] by simp
  show "mons s = mons t" using * [of mons] by simp
  show "selmon s = selmon t" using * [of selmon] by simp
  show "combo s = combo t" using * [of combo] by simp
  show "bh s = bh t" using * [of bh] by simp
  show "sw s = sw t" using * [of sw] by simp
  show "sh s = sh t" using * [of sh] by simp
  show "root s = root t" using * [of root] by simp
  show "nosaved (client s c) = nosaved (client t c)" using * [of "\<lambda>u. client u c"] by simp
qed

lemma forget_saved_xsend [simp]: "forget_saved (xsend r s) = forget_saved s"
  by (simp add: forget_saved_def xsend_def)

lemma forget_saved_idem [simp]: "forget_saved (forget_saved s) = forget_saved s"
  by (simp add: forget_saved_def nosaved_def)

lemma aspect_nosaved [simp]: "aspect (nosaved C) p = aspect C p"
  by (cases p) (simp add: aspect_def cong: if_cong)

lemma sizehints_nosaved [simp]: "sizehints (nosaved C) p = sizehints C p"
  by (simp add: sizehints_def Let_def)

lemma ISVISIBLE_forget_saved [simp]: "ISVISIBLE (forget_saved s) c = ISVISIBLE s c"
  by (simp add: ISVISIBLE_def)

lemma applysizehints_forget_saved [simp]:
  "applysizehints (forget_saved s) c r i = applysizehints s c r i"
  by (cases r) (simp add: applysizehints_def Let_def cong: if_cong split del: if_split)

lemma saved_cong:
  assumes "forget_saved s = forget_saved t"
  shows "ISVISIBLE s c = ISVISIBLE t c"
    and "applysizehints s c r i = applysizehints t c r i"
proof -
  show "ISVISIBLE s c = ISVISIBLE t c"
    using ISVISIBLE_forget_saved [of s c] ISVISIBLE_forget_saved [of t c] assms by simp
  show "applysizehints s c r i = applysizehints t c r i"
    using applysizehints_forget_saved [of s c r i] applysizehints_forget_saved [of t c r i] assms
    by simp
qed

lemma nosaved_resized:
  "nosaved (C\<lparr>oldx := a, cx := x, oldy := b, cy := y, oldw := c, cw := w, oldh := d, ch := h\<rparr>)
     = (nosaved C)\<lparr>cx := x, cy := y, cw := w, ch := h\<rparr>"
  by (simp add: nosaved_def)

lemma forget_saved_resizeclient:
  assumes "forget_saved s = forget_saved t"
  shows "forget_saved (resizeclient c x y w h s) = forget_saved (resizeclient c x y w h t)"
proof -
  have "nosaved (client (resizeclient c x y w h s) c') = nosaved (client (resizeclient c x y w h t) c')"
    for c'
    using forget_saved_eqD(9) [OF assms, of c']
    by (auto simp: client_resizeclient nosaved_resized)
  moreover have "forget_saved (resizeclient c x y w h u)
      = (forget_saved u)\<lparr>client := (\<lambda>c'. nosaved (client (resizeclient c x y w h u) c'))\<rparr>" for u
    by (simp add: forget_saved_def resizeclient_def configure_def Let_def xsend_def upd_client_def)
  ultimately show ?thesis
    using assms by simp
qed

lemma forget_saved_resize:
  assumes "forget_saved s = forget_saved t"
  shows "forget_saved (resize c x y w h i s) = forget_saved (resize c x y w h i t)"
  using assms forget_saved_resizeclient [OF assms] saved_cong(2) [OF assms]
  by (simp add: resize_def split: prod.splits)

lemma forget_saved_showhide:
  "forget_saved s = forget_saved t \<Longrightarrow> forget_saved (showhide cs s) = forget_saved (showhide cs t)"
proof (induction cs arbitrary: s t)
  case Nil
  then show ?case by simp
next
  case (Cons c cs)
  note eq = Cons.prems
  note C = nosaved_eqD [OF forget_saved_eqD(9) [OF eq, of c]]
  show ?case
  proof (cases "ISVISIBLE s c")
    case True
    then have vt: "ISVISIBLE t c" using saved_cong(1) [OF eq] by simp
    have "forget_saved (xsend a s) = forget_saved (xsend b t)" for a b
      using eq by simp
    from forget_saved_resize [OF this] this True vt C show ?thesis
      by (auto simp: Let_def intro!: Cons.IH)
  next
    case False
    then have vt: "\<not> ISVISIBLE t c" using saved_cong(1) [OF eq] by simp
    from False vt Cons.IH [OF eq] show ?thesis
      by (simp add: Let_def)
  qed
qed

lemma forget_saved_tile_loop:
  "forget_saved s = forget_saved t \<Longrightarrow>
   forget_saved (tile_loop m n mw' i my' ty cs s) = forget_saved (tile_loop m n mw' i my' ty cs t)"
proof (induction cs arbitrary: i my' ty s t)
  case Nil
  then show ?case by simp
next
  case (Cons c cs)
  note eq = Cons.prems
  note C = nosaved_eqD [OF forget_saved_eqD(9) [OF eq, of c]]
  note M = forget_saved_eqD(1) [OF eq]
  have vis: "ISVISIBLE s c = ISVISIBLE t c" using saved_cong(1) [OF eq] .
  show ?case
  proof (cases "isfloating (client s c) \<or> \<not> ISVISIBLE s c")
    case True
    with vis C Cons.IH [OF eq] show ?thesis by simp
  next
    case False
    have R: "forget_saved (resize c x y w h False s) = forget_saved (resize c x y w h False t)"
      for x y w h
      using forget_saved_resize [OF eq] .
    have H: "HEIGHT (client (resize c x y w h False s) c) = HEIGHT (client (resize c x y w h False t) c)"
      for x y w h
      using nosaved_eqD(12) [OF forget_saved_eqD(9) [OF R]] .
    from False vis C M H show ?thesis
      by (auto simp: Let_def intro!: Cons.IH R)
  qed
qed

lemma counttiled_saved:
  "forget_saved s = forget_saved t \<Longrightarrow> counttiled s cs = counttiled t cs"
proof (induction cs)
  case Nil
  then show ?case by simp
next
  case (Cons c cs)
  with saved_cong(1) [OF Cons.prems, of c]
    nosaved_eqD(7) [OF forget_saved_eqD(9) [OF Cons.prems, of c]]
  show ?case by simp
qed

lemma forget_saved_tile:
  assumes "forget_saved s = forget_saved t"
  shows "forget_saved (tile m s) = forget_saved (tile m t)"
  using assms counttiled_saved [OF assms] forget_saved_eqD(1) [OF assms]
    forget_saved_tile_loop [OF assms]
  by (simp add: tile_def Let_def)

lemma forget_saved_restack [simp]: "forget_saved (restack m s) = forget_saved s"
  by (simp add: restack_def Let_def split: option.splits)

lemma forget_saved_arrange_Some:
  assumes "forget_saved s = forget_saved t"
  shows "forget_saved (arrange (Some m) s) = forget_saved (arrange (Some m) t)"
  using forget_saved_tile [OF forget_saved_showhide [OF assms]] forget_saved_eqD(1) [OF assms]
  by (simp add: arrange_def)

section \<open>The tiling scenario\<close>

lemma mfact_cfg_val: "mfact_cfg = Fin (9227469 / 16777216)"
  by (simp add: mfact_cfg_def fl64_def fl32_def overflow_to_def fround_def ilog2_def pow2_def
      round_even_def Let_def compute_floorlog)

lemma master_width_1920: "f2u (fmul fl32 (i2f 1920) (Fin (9227469 / 16777216))) = 1056"
  by (simp add: i2f_def fl32_def overflow_to_def fround_def ilog2_def pow2_def round_even_def
      Let_def compute_floorlog rtrunc_def)

lemmas hints_defs = applysizehints_def clamp_origin_def sizehints_def aspect_def incstep_def
  maxstep_def WIDTH_def HEIGHT_def resizehints_def

text \<open>
  Claim C1. On a monitor whose window area is 1920x1080 at the origin, with \<^verbatim>\<open>gappx\<close> 10,
  \<^verbatim>\<open>mfact\<close> 0.55 (as a \<^verbatim>\<open>float\<close>), \<^verbatim>\<open>nmaster\<close> 1 and no bar, \<^verbatim>\<open>tile\<close> gives a single tiled
  visible client without size hints and with \<^verbatim>\<open>borderpx\<close> 0 the rectangle (10, 10, 1900, 1060);
  with two such clients the first in tile order gets (10, 10, 1046, 1060) and the second
  (1066, 10, 844, 1060). The clients' previous geometry is arbitrary.
\<close>

theorem tile_scenario:
  assumes "plain_monitor (monitor s m)" and "bh s = 0"
  shows "(clients (monitor s m) = [a] \<and> plain_tiled s m a
            \<longrightarrow> geom (client (tile m s) a) = (10, 10, 1900, 1060))
       \<and> (clients (monitor s m) = [a, b] \<and> a \<noteq> b \<and> plain_tiled s m a \<and> plain_tiled s m b
            \<longrightarrow> geom (client (tile m s) a) = (10, 10, 1046, 1060)
              \<and> geom (client (tile m s) b) = (1066, 10, 844, 1060))"
proof (intro conjI impI)
  assume "clients (monitor s m) = [a] \<and> plain_tiled s m a"
  with assms show "geom (client (tile m s) a) = (10, 10, 1900, 1060)"
    by (simp add: plain_monitor_def plain_tiled_def tile_def Let_def u32_def i32_def
        hints_defs borderpx_def)
next
  assume *: "clients (monitor s m) = [a, b] \<and> a \<noteq> b \<and> plain_tiled s m a \<and> plain_tiled s m b"
  with assms show "geom (client (tile m s) a) = (10, 10, 1046, 1060)"
    by (simp add: plain_monitor_def plain_tiled_def tile_def Let_def u32_def i32_def
        hints_defs borderpx_def mfact_cfg_val master_width_1920)
  from * assms show "geom (client (tile m s) b) = (1066, 10, 844, 1060)"
    by (simp add: plain_monitor_def plain_tiled_def tile_def Let_def u32_def i32_def
        hints_defs borderpx_def mfact_cfg_val master_width_1920)
qed

section \<open>Evaluating the scenario\<close>

text \<open>The definitions a concrete state is evaluated with. The simplifier is given
  \<open>let_weak_cong\<close> with them, so that it evaluates a \<open>let\<close> as the program does: the bound
  value first, then the body.\<close>

lemmas eval_defs = manage_def Let_def plain_window_def updatetitle_def applyrules_def applyrule_def
  rules_def rulematch_def updatewindowtype_def updatesizehints_def updatewmhints_def
  setclientstate_def grabbuttons_def attach_def attachstack_def detach_def detachstack_def
  configure_def unfocus_def focus_def setfocus_def seturgent_def
  arrange_def tile_def restack_def resize_def resizeclient_def hints_defs ISVISIBLE_def
  broken_def sublist_code PSize_def PMinSize_def PMaxSize_def PResizeInc_def PAspect_def
  PBaseSize_def zero_client_def TAGMASK_def ntags_def u32_def borderpx_def NormalState_def
  init_wm_def blank_wm_def screen_monitor_def createmon_def zero_monitor_def updatebarpos_def
  mfact_cfg_val master_width_1920 nmaster_cfg_def gappx_cfg_def i32_def
  upd_client_def upd_monitor_def xsend_def setfullscreen_def inc_max_hints_def
  comboview_def argtags_def pop_def zoom_def geom_def quiet_def plain_client_def

text \<open>The scenario states, evaluated once.\<close>

lemma one_window_val:
  "one_window = init_wm
     \<lparr>client := (client init_wm)(1 := plain_client 101 (10, 10, 1900, 1060) (0, 0, 640, 480)),
      monitor := (monitor init_wm)
        (1 := (monitor init_wm 1)\<lparr>clients := [1], sel := Some 1, stack := [1]\<rparr>)\<rparr>"
  by (simp add: one_window_def eval_defs cong: let_weak_cong)

lemma two_windows_val:
  "two_windows = init_wm
     \<lparr>client := (client init_wm)
        (2 := plain_client 102 (10, 10, 1046, 1060) (0, 0, 640, 480),
         1 := plain_client 101 (1066, 10, 844, 1060) (10, 10, 1900, 1060)),
      monitor := (monitor init_wm)
        (1 := (monitor init_wm 1)\<lparr>clients := [2, 1], sel := Some 2, stack := [2, 1]\<rparr>)\<rparr>"
  by (simp add: two_windows_def one_window_val eval_defs cong: let_weak_cong)

lemma three_windows_val:
  "three_windows = init_wm
     \<lparr>client := (client init_wm)
        (3 := plain_client 103 (10, 10, 1046, 1060) (0, 0, 640, 480),
         2 := plain_client 102 (1066, 10, 844, 525) (10, 10, 1046, 1060),
         1 := plain_client 101 (1066, 545, 844, 525) (1066, 10, 844, 1060)),
      monitor := (monitor init_wm)
        (1 := (monitor init_wm 1)\<lparr>clients := [3, 2, 1], sel := Some 3, stack := [3, 2, 1]\<rparr>)\<rparr>"
  by (simp add: three_windows_def two_windows_val eval_defs cong: let_weak_cong)

lemma second_selected_val:
  "second_selected = three_windows
     \<lparr>monitor := (monitor three_windows)
        (1 := (monitor three_windows 1)\<lparr>sel := Some 2, stack := [2, 3, 1]\<rparr>)\<rparr>"
  by (simp add: second_selected_def three_windows_val eval_defs cong: let_weak_cong)

lemmas scenario_vals = one_window_val two_windows_val three_windows_val second_selected_val
  one_fullscreen_def one_hinted_def one_hidden_def

theorem tile_scenario_witness:
  "plain_monitor (monitor one_window 1) \<and> bh one_window = 0
   \<and> clients (monitor one_window 1) = [1] \<and> plain_tiled one_window 1 1
   \<and> geom (client (tile 1 one_window) 1) = (10, 10, 1900, 1060)
   \<and> plain_monitor (monitor two_windows 1) \<and> bh two_windows = 0
   \<and> clients (monitor two_windows 1) = [2, 1]
   \<and> plain_tiled two_windows 1 2 \<and> plain_tiled two_windows 1 1
   \<and> geom (client (tile 1 two_windows) 2) = (10, 10, 1046, 1060)
   \<and> geom (client (tile 1 two_windows) 1) = (1066, 10, 844, 1060)"
proof -
  have a: "plain_monitor (monitor one_window 1)" "bh one_window = 0"
    "clients (monitor one_window 1) = [1]" "plain_tiled one_window 1 1"
    by (simp_all add: plain_monitor_def plain_tiled_def scenario_vals eval_defs cong: let_weak_cong)
  have b: "plain_monitor (monitor two_windows 1)" "bh two_windows = 0"
    "clients (monitor two_windows 1) = [2, 1]"
    "plain_tiled two_windows 1 2" "plain_tiled two_windows 1 1"
    by (simp_all add: plain_monitor_def plain_tiled_def scenario_vals eval_defs cong: let_weak_cong)
  from a b tile_scenario [of one_window 1 1] tile_scenario [of two_windows 1 2 1]
  show ?thesis by simp
qed

text \<open>The scenarios S1 and S2 from end to end: the geometry in the states that mapping one
  and two windows leaves.\<close>

lemma mapped_windows_geometry:
  "geom (client one_window 1) = (10, 10, 1900, 1060)"
  "geom (client two_windows 2) = (10, 10, 1046, 1060)"
  "geom (client two_windows 1) = (1066, 10, 844, 1060)"
  by (simp_all add: scenario_vals eval_defs cong: let_weak_cong)


section \<open>Fullscreen\<close>

lemma setfullscreen_same:
  "isfullscreen (client s c) = f \<Longrightarrow> setfullscreen c f s = s"
  by (auto simp: setfullscreen_def)

lemma isfullscreen_resizeclient [simp]:
  "isfullscreen (client (resizeclient c x y w h s) c') = isfullscreen (client s c')"
  using nogeom_eqD(20) [OF forget_geometry_eqD(9) [OF forget_geometry_resizeclient]] .

lemma isfullscreen_setfullscreen:
  "isfullscreen (client (setfullscreen c f s) c) = f"
  by (auto simp: setfullscreen_def Let_def)

text \<open>
  Claim C9. \<^verbatim>\<open>setfullscreen(c, f)\<close> on a client whose \<^verbatim>\<open>isfullscreen\<close> already is \<open>f\<close> returns
  the state unchanged (no client field, no saved field, no geometry, no request sent), and
  \<^verbatim>\<open>setfullscreen(c, f)\<close> twice in a row is \<^verbatim>\<open>setfullscreen(c, f)\<close> once.
\<close>

theorem setfullscreen_idempotent:
  "(isfullscreen (client s c) = f \<longrightarrow> setfullscreen c f s = s)
   \<and> setfullscreen c f (setfullscreen c f s) = setfullscreen c f s"
  using setfullscreen_same [of s c f]
    setfullscreen_same [OF isfullscreen_setfullscreen, of c f s] by simp

theorem setfullscreen_idempotent_witness:
  "isfullscreen (client init_wm 1) = False
   \<and> setfullscreen 1 False init_wm = init_wm
   \<and> setfullscreen 1 False (setfullscreen 1 False init_wm) = setfullscreen 1 False init_wm"
  using setfullscreen_idempotent [of init_wm 1 False]
  by (simp add: init_wm_def blank_wm_def zero_client_def)

lemma forget_saved_eqI:
  assumes "monitor s = monitor t" "mons s = mons t" "selmon s = selmon t" "combo s = combo t"
    "bh s = bh t" "sw s = sw t" "sh s = sh t" "root s = root t"
    "\<And>c. nosaved (client s c) = nosaved (client t c)"
  shows "forget_saved s = forget_saved t"
  using assms by (cases s, cases t) (simp add: forget_saved_def fun_eq_iff)

lemma resizeclient_frame [simp]:
  "monitor (resizeclient c x y w h s) = monitor s" "mons (resizeclient c x y w h s) = mons s"
  "selmon (resizeclient c x y w h s) = selmon s" "combo (resizeclient c x y w h s) = combo s"
  "bh (resizeclient c x y w h s) = bh s" "sw (resizeclient c x y w h s) = sw s"
  "sh (resizeclient c x y w h s) = sh s" "root (resizeclient c x y w h s) = root s"
  by (simp_all add: resizeclient_def configure_def Let_def)

lemma roundtrip_before_arrange:
  assumes "\<not> isfullscreen (client s c)"
  shows "\<exists>u. setfullscreen c False (setfullscreen c True s) = arrange (Some (mon (client s c))) u
           \<and> forget_saved u = forget_saved s"
proof -
  define s1 where "s1 = setfullscreen c True s"
  have s1: "s1 = (let t1 = xsend (XSetNetWMState (win (client s c)) True) s;
            t2 = upd_client c (\<lambda>C. C\<lparr>isfullscreen := True, oldstate := isfloating C,
                                       oldbw := bw C, bw := 0, isfloating := True\<rparr>) t1;
            M = monitor t2 (mon (client t2 c));
            t3 = resizeclient c (mx M) (my M) (mw M) (mh M) t2
        in xsend (XRaiseWindow (win (client t3 c))) t3)"
    using assms by (simp add: s1_def setfullscreen_def)
  define u where "u = (let t1 = xsend (XSetNetWMState (win (client s1 c)) False) s1;
            t2 = upd_client c (\<lambda>C. C\<lparr>isfullscreen := False, isfloating := oldstate C,
                                       bw := oldbw C, cx := oldx C, cy := oldy C,
                                       cw := oldw C, ch := oldh C\<rparr>) t1;
            C2 = client t2 c
        in resizeclient c (cx C2) (cy C2) (cw C2) (ch C2) t2)"
  have fs: "isfullscreen (client s1 c)"
    by (simp add: s1_def isfullscreen_setfullscreen)
  have m: "mon (client u c) = mon (client s c)"
    by (simp add: u_def s1 Let_def client_resizeclient)
  have "setfullscreen c False s1 = arrange (Some (mon (client u c))) u"
    using fs by (simp add: setfullscreen_def u_def Let_def)
  moreover have "forget_saved u = forget_saved s"
  proof (rule forget_saved_eqI)
    fix c'
    show "nosaved (client u c') = nosaved (client s c')"
      using assms by (simp add: u_def s1 Let_def client_resizeclient nosaved_def)
  qed (simp_all add: u_def s1 Let_def)
  ultimately show ?thesis
    using m by (auto simp: s1_def)
qed

text \<open>
  Claim C2, amended. For a client that is not fullscreen when the first call is made,
  \<^verbatim>\<open>setfullscreen(c, true); setfullscreen(c, false)\<close> leaves the state that a single
  \<^verbatim>\<open>arrange(c->mon)\<close> would leave, up to the saved \<^verbatim>\<open>old...\<close> fields and the requests sent.
  It restores \<^verbatim>\<open>isfloating\<close> and \<^verbatim>\<open>bw\<close>; it restores x, y, w, h and then re-arranges the
  monitor, so the client ends with the geometry that \<^verbatim>\<open>arrange\<close> gives it from the
  geometry it had, which is that geometry itself for a client that is not visible.
\<close>

theorem setfullscreen_roundtrip:
  assumes "\<not> isfullscreen (client s c)"
  shows "forget_saved (setfullscreen c False (setfullscreen c True s))
           = forget_saved (arrange (Some (mon (client s c))) s)
       \<and> isfloating (client (setfullscreen c False (setfullscreen c True s)) c)
           = isfloating (client s c)
       \<and> bw (client (setfullscreen c False (setfullscreen c True s)) c) = bw (client s c)
       \<and> geom (client (setfullscreen c False (setfullscreen c True s)) c)
           = geom (client (arrange (Some (mon (client s c))) s) c)
       \<and> (\<not> ISVISIBLE s c \<longrightarrow>
            geom (client (setfullscreen c False (setfullscreen c True s)) c) = geom (client s c))"
proof -
  from roundtrip_before_arrange [OF assms] obtain u where
    u: "setfullscreen c False (setfullscreen c True s) = arrange (Some (mon (client s c))) u"
    and eq: "forget_saved u = forget_saved s"
    by blast
  have a: "forget_saved (setfullscreen c False (setfullscreen c True s))
      = forget_saved (arrange (Some (mon (client s c))) s)"
    using forget_saved_arrange_Some [OF eq] u by simp
  note C = nosaved_eqD [OF forget_saved_eqD(9) [OF a, of c]]
  from a C(5,7,11) client_arrange_hidden [of s c] show ?thesis
    by simp
qed

text \<open>The claim as stated fails twice. For a client that is already fullscreen the first
  call does nothing and the second restores what was saved when it became fullscreen: the
  single tiled window of the scenario, made fullscreen, is floating before the two calls
  and tiled after them. And the closing \<^verbatim>\<open>arrange\<close> places the client anew: the window
  that announced a width increment of 7 and a maximum width of 1000 since it was last
  placed is 1900 wide before the two calls and 1000 wide after them.\<close>

theorem setfullscreen_roundtrip_counterexample:
  "isfloating (client (setfullscreen 1 False (setfullscreen 1 True one_fullscreen)) 1)
     \<noteq> isfloating (client one_fullscreen 1)
   \<and> \<not> isfullscreen (client one_hinted 1)
   \<and> geom (client (setfullscreen 1 False (setfullscreen 1 True one_hinted)) 1)
     \<noteq> geom (client one_hinted 1)"
  by (simp add: scenario_vals eval_defs cong: let_weak_cong)

theorem setfullscreen_roundtrip_witness:
  "\<not> isfullscreen (client one_hidden 1) \<and> \<not> ISVISIBLE one_hidden 1
   \<and> isfloating (client (setfullscreen 1 False (setfullscreen 1 True one_hidden)) 1)
       = isfloating (client one_hidden 1)
   \<and> bw (client (setfullscreen 1 False (setfullscreen 1 True one_hidden)) 1)
       = bw (client one_hidden 1)
   \<and> geom (client (setfullscreen 1 False (setfullscreen 1 True one_hidden)) 1)
       = geom (client one_hidden 1)"
proof -
  have h: "\<not> isfullscreen (client one_hidden 1)"
    by (simp add: scenario_vals eval_defs cong: let_weak_cong)
  have v: "\<not> ISVISIBLE one_hidden 1"
    by (simp add: scenario_vals eval_defs cong: let_weak_cong)
  from setfullscreen_roundtrip [OF h] h v show ?thesis
    by blast
qed

section \<open>Promotion to master\<close>





lemma counttiled_nexttiled: "counttiled s (nexttiled s cs) = counttiled s cs"
  by (induction cs) auto

lemma tile_loop_nexttiled:
  "tile_loop m n mw' i my' ty (nexttiled s cs) s = tile_loop m n mw' i my' ty cs s"
  by (induction cs) auto



section \<open>Zoom on the second of three windows\<close>

lemma ISVISIBLE_upd_monitor_lists:
  assumes "\<And>M. seltags (f M) = seltags M" "\<And>M. tagset (f M) = tagset M"
  shows "ISVISIBLE (upd_monitor m f s) c = ISVISIBLE s c"
  using assms by (simp add: ISVISIBLE_def Let_def)

lemma ISVISIBLE_attach [simp]: "ISVISIBLE (attach c s) x = ISVISIBLE s x"
  by (simp add: attach_def ISVISIBLE_upd_monitor_lists)

lemma ISVISIBLE_detach [simp]: "ISVISIBLE (detach c s) x = ISVISIBLE s x"
  by (simp add: detach_def ISVISIBLE_upd_monitor_lists)

lemma client_attach [simp]: "client (attach c s) = client s"
  and client_detach [simp]: "client (detach c s) = client s"
  and selmon_attach [simp]: "selmon (attach c s) = selmon s"
  and selmon_detach [simp]: "selmon (detach c s) = selmon s"
  by (simp_all add: attach_def detach_def)

lemma clients_attach_detach:
  "clients (monitor (attach c (detach c s)) m) =
     (if m = mon (client s c) then c # remove1 c (clients (monitor s m))
      else clients (monitor s m))"
  by (simp add: attach_def detach_def)

lemma unfocus_frame [simp]:
  "client (unfocus co b s) = client s" "monitor (unfocus co b s) = monitor s"
  "selmon (unfocus co b s) = selmon s"
  by (simp_all add: unfocus_def grabbuttons_def Let_def split: option.splits)

lemma grabbuttons_frame [simp]:
  "client (grabbuttons c b s) = client s" "monitor (grabbuttons c b s) = monitor s"
  "selmon (grabbuttons c b s) = selmon s"
  by (simp_all add: grabbuttons_def)

lemma setfocus_frame [simp]:
  "client (setfocus c s) = client s" "monitor (setfocus c s) = monitor s"
  "selmon (setfocus c s) = selmon s"
  by (simp_all add: setfocus_def Let_def)

lemma seturgent_frame [simp]:
  "monitor (seturgent c u s) = monitor s" "selmon (seturgent c u s) = selmon s"
  "mon (client (seturgent c u s) x) = mon (client s x)"
  by (simp_all add: seturgent_def)

lemma stack_ops_frame [simp]:
  "client (attachstack c s) = client s" "selmon (attachstack c s) = selmon s"
  "client (detachstack c s) = client s" "selmon (detachstack c s) = selmon s"
  by (simp_all add: attachstack_def detachstack_def Let_def)

lemma selmon_focus_visible:
  "ISVISIBLE s c \<Longrightarrow> selmon (focus (Some c) s) = mon (client s c)"
  by (simp add: focus_def Let_def)

lemma clients_pop:
  "clients (monitor (pop c s) m) =
     (if m = mon (client s c) then c # remove1 c (clients (monitor s m))
      else clients (monitor s m))"
  by (simp add: pop_def Let_def clients_attach_detach)

lemma selmon_pop: "ISVISIBLE s c \<Longrightarrow> selmon (pop c s) = mon (client s c)"
  by (simp add: pop_def Let_def selmon_focus_visible)

lemma tiled_pop [simp]: "tiled (pop c s) x = tiled s x"
  by (simp add: tiled_def pop_def Let_def)

text \<open>
  Claim C5, amended. When the selected monitor's client list is \<open>[c3, c2, c1]\<close> (three
  windows are attached at the head as they are mapped, so the third-mapped comes first),
  all tiled, and the second-mapped \<open>c2\<close> is selected, \<^verbatim>\<open>zoom\<close> is \<^verbatim>\<open>pop(c2)\<close>: the list
  becomes \<open>[c2, c3, c1]\<close>, all three still tiled. The second-mapped window is the master
  and the stack column holds the third-mapped window, then the first-mapped one.
\<close>

theorem zoom_promotes:
  assumes "sel (monitor s (selmon s)) = Some c2"
    and "clients (monitor s (selmon s)) = [c3, c2, c1]"
    and "distinct [c3, c2, c1]"
    and "tiled s c3" "tiled s c2" "tiled s c1"
    and "mon (client s c2) = selmon s"
  shows "zoom s = Inr (pop c2 s)
       \<and> selmon (pop c2 s) = selmon s
       \<and> clients (monitor (pop c2 s) (selmon s)) = [c2, c3, c1]
       \<and> nexttiled (pop c2 s) (clients (monitor (pop c2 s) (selmon s))) = [c2, c3, c1]
       \<and> filter (tiled (pop c2 s)) [c2, c3, c1] = [c2, c3, c1]"
proof -
  from assms have z: "zoom s = Inr (pop c2 s)"
    by (simp add: zoom_def tiled_def)
  from assms have v: "ISVISIBLE s c2" by (simp add: tiled_def)
  have sm: "selmon (pop c2 s) = selmon s"
    using selmon_pop [OF v] assms(7) by simp
  have cl: "clients (monitor (pop c2 s) (selmon s)) = [c2, c3, c1]"
    using assms by (simp add: clients_pop)
  have t: "tiled (pop c2 s) c3" "tiled (pop c2 s) c2" "tiled (pop c2 s) c1"
    using assms by simp_all
  then have "nexttiled (pop c2 s) [c2, c3, c1] = [c2, c3, c1]"
    by (simp add: tiled_def)
  with z sm cl t show ?thesis by simp
qed

theorem zoom_promotes_witness:
  "sel (monitor second_selected (selmon second_selected)) = Some 2
   \<and> clients (monitor second_selected (selmon second_selected)) = [3, 2, 1]
   \<and> distinct [3, 2, 1 :: nat]
   \<and> tiled second_selected 3 \<and> tiled second_selected 2 \<and> tiled second_selected 1
   \<and> mon (client second_selected 2) = selmon second_selected
   \<and> zoom second_selected = Inr (pop 2 second_selected)
   \<and> clients (monitor (pop 2 second_selected) (selmon second_selected)) = [2, 3, 1]"
proof -
  have a: "sel (monitor second_selected (selmon second_selected)) = Some 2"
    "clients (monitor second_selected (selmon second_selected)) = [3, 2, 1]"
    "tiled second_selected 3" "tiled second_selected 2" "tiled second_selected 1"
    "mon (client second_selected 2) = selmon second_selected"
    by (simp_all add: tiled_def scenario_vals eval_defs cong: let_weak_cong)
  have d: "distinct [3, 2, 1 :: nat]" by simp
  from zoom_promotes [OF a(1,2) d a(3-6)] a d show ?thesis by simp
qed

text \<open>The claim as stated puts the first-mapped window above the third-mapped one. In the
  scenario the client list after \<^verbatim>\<open>zoom\<close> is second, third, first, and in the stack column
  (both at x = 1066) the third-mapped window is at y = 10 and the first-mapped at y = 545.\<close>

theorem zoom_order_counterexample:
  "zoom second_selected = Inr (pop 2 second_selected)
   \<and> clients (monitor (pop 2 second_selected) 1) \<noteq> [2, 1, 3]
   \<and> geom (client (pop 2 second_selected) 2) = (10, 10, 1046, 1060)
   \<and> geom (client (pop 2 second_selected) 3) = (1066, 10, 844, 525)
   \<and> geom (client (pop 2 second_selected) 1) = (1066, 545, 844, 525)"
  by (simp add: scenario_vals eval_defs cong: let_weak_cong)

section \<open>Toggling tags\<close>

text \<open>The exclusive-or is computed in \<^verbatim>\<open>unsigned long\<close> and stored in an \<^verbatim>\<open>unsigned int\<close>:
  that is the exclusive-or of the 32-bit value with the low 32 bits of the masked argument.\<close>

lemma xor_truncated:
  fixes t :: "32 word" and a :: "64 word"
  shows "(ucast ((ucast t :: 64 word) XOR a) :: 32 word) = t XOR ucast a"
  by (rule bit_word_eqI) (auto simp: bit_simps)

lemma toggleview_refused:
  "tagset (monitor s (selmon s)) (seltags (monitor s (selmon s))) XOR ucast (argtags ui) = 0
   \<Longrightarrow> toggleview ui s = s"
  by (simp add: toggleview_def Let_def xor_truncated)

lemma toggleview_stored:
  assumes "tagset (monitor s (selmon s)) (seltags (monitor s (selmon s))) XOR ucast (argtags ui) \<noteq> 0"
  shows "tagset (monitor (toggleview ui s) (selmon s)) =
           (tagset (monitor s (selmon s)))
             (seltags (monitor s (selmon s)) :=
                tagset (monitor s (selmon s)) (seltags (monitor s (selmon s)))
                  XOR ucast (argtags ui))"
    and "seltags (monitor (toggleview ui s) (selmon s)) = seltags (monitor s (selmon s))"
  using assms by (simp_all add: toggleview_def Let_def xor_truncated)

lemma toggletag_refused:
  "sel (monitor s (selmon s)) = Some c \<Longrightarrow> tags (client s c) XOR ucast (argtags ui) = 0
   \<Longrightarrow> toggletag ui s = s"
  by (simp add: toggletag_def Let_def xor_truncated)

lemma toggletag_stored:
  assumes "sel (monitor s (selmon s)) = Some c" "tags (client s c) XOR ucast (argtags ui) \<noteq> 0"
  shows "tags (client (toggletag ui s) c) = tags (client s c) XOR ucast (argtags ui)"
  using assms by (simp add: toggletag_def Let_def xor_truncated)

text \<open>
  Claim C6. Let \<open>a\<close> be the tag-masked argument. When the selected tagset of the selected
  monitor XOR \<open>a\<close> is 0, \<^verbatim>\<open>toggleview\<close> returns the state unchanged; otherwise that
  non-zero value is stored in the selected slot of the tagset (the other slot and
  \<^verbatim>\<open>seltags\<close> stay). When the tags of the selected client XOR \<open>a\<close> are 0, \<^verbatim>\<open>toggletag\<close>
  returns the state unchanged; otherwise that non-zero value is stored in the client's
  tags.
\<close>

theorem toggle_refuses_empty:
  "(tagset (monitor s (selmon s)) (seltags (monitor s (selmon s))) XOR ucast (argtags ui) = 0
      \<longrightarrow> toggleview ui s = s)
   \<and> (tagset (monitor s (selmon s)) (seltags (monitor s (selmon s))) XOR ucast (argtags ui) \<noteq> 0
      \<longrightarrow> tagset (monitor (toggleview ui s) (selmon s)) =
            (tagset (monitor s (selmon s)))
              (seltags (monitor s (selmon s)) :=
                 tagset (monitor s (selmon s)) (seltags (monitor s (selmon s)))
                   XOR ucast (argtags ui))
          \<and> seltags (monitor (toggleview ui s) (selmon s)) = seltags (monitor s (selmon s)))
   \<and> (sel (monitor s (selmon s)) = Some c \<and> tags (client s c) XOR ucast (argtags ui) = 0
      \<longrightarrow> toggletag ui s = s)
   \<and> (sel (monitor s (selmon s)) = Some c \<and> tags (client s c) XOR ucast (argtags ui) \<noteq> 0
      \<longrightarrow> tags (client (toggletag ui s) c) = tags (client s c) XOR ucast (argtags ui))"
  using toggleview_refused [of s ui] toggleview_stored [of s ui]
    toggletag_refused [of s c ui] toggletag_stored [of s c ui]
  by blast

theorem toggle_refuses_empty_witness:
  "toggleview 1 one_window = one_window
   \<and> tagset (monitor (toggleview 2 one_window) 1) False = 3
   \<and> toggletag 1 one_window = one_window
   \<and> tags (client (toggletag 2 one_window) 1) = 3"
proof -
  have a: "selmon one_window = 1" "seltags (monitor one_window 1) = False"
    "tagset (monitor one_window 1) False = 1" "sel (monitor one_window 1) = Some 1"
    "tags (client one_window 1) = 1"
    by (simp_all add: scenario_vals eval_defs cong: let_weak_cong)
  have b: "(ucast (argtags 1) :: 32 word) = 1" "(ucast (argtags 2) :: 32 word) = 2"
    by (simp_all add: argtags_def TAGMASK_def ntags_def)
  from toggle_refuses_empty [of one_window 1 1] toggle_refuses_empty [of one_window 2 1] a b
  show ?thesis by simp
qed

section \<open>ConfigureRequest for a managed client\<close>

lemma wintoclient_win: "wintoclient s w = Some c \<Longrightarrow> win (client s c) = w"
  by (auto simp: wintoclient_def find_Some_iff)

text \<open>
  Claim C7. A ConfigureRequest for the window of a managed client \<open>c\<close>. Without the
  border-width bit and with \<open>c\<close> not floating, the state is unchanged but for two requests
  sent: a ConfigureNotify to the window that carries the client's current x, y, w, h and
  border width, and the final \<^verbatim>\<open>XSync\<close>; so x, y, w, h (and every other field) are as
  before. With the border-width bit, the only field that changes is \<^verbatim>\<open>bw\<close> of \<open>c\<close>, set to
  the requested width, and the only request sent is \<^verbatim>\<open>XSync\<close>.
\<close>

theorem configurerequest_managed:
  assumes "wintoclient s (ev_window ev) = Some c"
  shows "(value_mask ev AND CWBorderWidth = 0 \<and> \<not> isfloating (client s c) \<longrightarrow>
            configurerequest ev s =
              s\<lparr>xlog := xlog s @
                   [XSendConfigureNotify (ev_window ev) (cx (client s c)) (cy (client s c))
                      (cw (client s c)) (ch (client s c)) (bw (client s c)), XSync]\<rparr>)
       \<and> (value_mask ev AND CWBorderWidth \<noteq> 0 \<longrightarrow>
            configurerequest ev s =
              s\<lparr>client := (client s)(c := (client s c)\<lparr>bw := ev_border_width ev\<rparr>),
                xlog := xlog s @ [XSync]\<rparr>
            \<and> geom (client (configurerequest ev s) c) = geom (client s c))"
  using assms wintoclient_win [OF assms]
  by (simp add: configurerequest_def configure_def upd_client_def xsend_def geom_def Let_def)

theorem configurerequest_managed_witness:
  "wintoclient one_window 101 = Some 1
   \<and> \<not> isfloating (client one_window 1)
   \<and> configurerequest
        \<lparr>ev_window = 101, value_mask = 15, ev_x = 5, ev_y = 6, ev_width = 300,
         ev_height = 200, ev_border_width = 3, ev_above = 0, ev_detail = 0\<rparr> one_window
      = one_window\<lparr>xlog := [XSendConfigureNotify 101 10 10 1900 1060 0, XSync]\<rparr>
   \<and> configurerequest
        \<lparr>ev_window = 101, value_mask = 31, ev_x = 5, ev_y = 6, ev_width = 300,
         ev_height = 200, ev_border_width = 3, ev_above = 0, ev_detail = 0\<rparr> one_window
      = one_window\<lparr>client := (client one_window)(1 := (client one_window 1)\<lparr>bw := 3\<rparr>),
                   xlog := [XSync]\<rparr>
   \<and> geom (client one_window 1) = (10, 10, 1900, 1060)"
proof -
  have a: "wintoclient one_window 101 = Some 1" "\<not> isfloating (client one_window 1)"
    "xlog one_window = []" "geom (client one_window 1) = (10, 10, 1900, 1060)"
    "bw (client one_window 1) = 0"
    by (simp_all add: wintoclient_def scenario_vals eval_defs cong: let_weak_cong)
  have b: "(15 :: 64 word) AND CWBorderWidth = 0" "(31 :: 64 word) AND CWBorderWidth \<noteq> 0"
    by (simp_all add: CWBorderWidth_def)
  from configurerequest_managed
         [of one_window "\<lparr>ev_window = 101, value_mask = 15, ev_x = 5, ev_y = 6, ev_width = 300,
            ev_height = 200, ev_border_width = 3, ev_above = 0, ev_detail = 0\<rparr>" 1]
       configurerequest_managed
         [of one_window "\<lparr>ev_window = 101, value_mask = 31, ev_x = 5, ev_y = 6, ev_width = 300,
            ev_height = 200, ev_border_width = 3, ev_above = 0, ev_detail = 0\<rparr>" 1]
       a b
  show ?thesis by (simp add: geom_def)
qed

section \<open>The tag chord\<close>

lemma find_in_set: "find P xs = Some x \<Longrightarrow> x \<in> set xs"
  by (auto simp: find_Some_iff)

lemma stack_attach_detach:
  "stack (monitor (attachstack c (detachstack c s)) m) =
     (if m = mon (client s c) then c # remove1 c (stack (monitor s m))
      else stack (monitor s m))"
  by (simp add: attachstack_def detachstack_def Let_def)

lemma focus_None_owned:
  assumes "stack_owned s"
  shows "selmon (focus None s) = selmon s"
    and "set (stack (monitor (focus None s) (selmon s))) \<subseteq> set (stack (monitor s (selmon s)))"
proof -
  show "selmon (focus None s) = selmon s"
  proof (cases "find (ISVISIBLE s) (stack (monitor s (selmon s)))")
    case None
    then show ?thesis by (simp add: focus_def Let_def)
  next
    case (Some c)
    with assms have "mon (client s c) = selmon s"
      by (auto simp: stack_owned_def dest: find_in_set)
    with Some show ?thesis by (simp add: focus_def Let_def)
  qed
  show "set (stack (monitor (focus None s) (selmon s))) \<subseteq> set (stack (monitor s (selmon s)))"
  proof (cases "find (ISVISIBLE s) (stack (monitor s (selmon s)))")
    case None
    then show ?thesis by (simp add: focus_def Let_def)
  next
    case (Some c)
    then have in_stack: "c \<in> set (stack (monitor s (selmon s)))" by (rule find_in_set)
    with assms have "mon (client s c) = selmon s"
      by (auto simp: stack_owned_def)
    with Some in_stack show ?thesis
      by (auto simp: focus_def Let_def stack_attach_detach
          dest: set_remove1_subset [THEN subsetD])
  qed
qed

lemma stack_owned_cong:
  assumes "stack_owned s" "selmon t = selmon s"
    "set (stack (monitor t (selmon s))) \<subseteq> set (stack (monitor s (selmon s)))"
    "\<And>c. mon (client t c) = mon (client s c)"
  shows "stack_owned t"
  using assms by (auto simp: stack_owned_def)

lemma stack_owned_focus_None: "stack_owned s \<Longrightarrow> stack_owned (focus None s)"
  by (rule stack_owned_cong [of s]) (simp_all add: focus_None_owned)

lemma stack_owned_arrange: "stack_owned s \<Longrightarrow> stack_owned (arrange mo s)"
  by (rule stack_owned_cong [of s]) simp_all

lemma stack_owned_tagset:
  assumes "stack_owned s" "\<And>M. stack (f M) = stack M"
  shows "stack_owned (upd_monitor m f s)"
  using assms by (auto simp: stack_owned_def)

lemma stack_owned_combo: "stack_owned (s\<lparr>combo := b\<rparr>) = stack_owned s"
  by (simp add: stack_owned_def)

lemma stack_owned_comboview:
  assumes "stack_owned s"
  shows "stack_owned (comboview ui s)" and "selmon (comboview ui s) = selmon s"
proof -
  define s1 where "s1 =
    (if combo s then
       upd_monitor (selmon s)
         (\<lambda>M. M\<lparr>tagset := (tagset M)
                   (seltags M := tagset M (seltags M) OR ucast (argtags ui))\<rparr>) s
     else
       (let sa = upd_monitor (selmon s) (\<lambda>M. M\<lparr>seltags := \<not> seltags M\<rparr>) s;
            sb = sa\<lparr>combo := True\<rparr>
        in if (ucast (argtags ui) :: tagmask) \<noteq> 0
           then upd_monitor (selmon sb)
                  (\<lambda>M. M\<lparr>tagset := (tagset M)(seltags M := ucast (argtags ui))\<rparr>) sb
           else sb))"
  have cv: "comboview ui s = arrange (Some (selmon (focus None s1))) (focus None s1)"
    by (simp add: comboview_def s1_def Let_def)
  have o1: "stack_owned s1" and m1: "selmon s1 = selmon s"
    using assms by (simp_all add: s1_def Let_def stack_owned_tagset stack_owned_combo)
  from o1 show "stack_owned (comboview ui s)"
    by (simp add: cv stack_owned_arrange stack_owned_focus_None)
  from o1 m1 show "selmon (comboview ui s) = selmon s"
    by (simp add: cv focus_None_owned)
qed

lemma comboview_combo_set:
  assumes "combo s"
  shows "tagset (monitor (comboview ui s) (selmon s)) =
           (tagset (monitor s (selmon s)))
             (seltags (monitor s (selmon s)) :=
                tagset (monitor s (selmon s)) (seltags (monitor s (selmon s)))
                  OR ucast (argtags ui))"
    and "seltags (monitor (comboview ui s) (selmon s)) = seltags (monitor s (selmon s))"
    and "combo (comboview ui s)"
  using assms by (simp_all add: comboview_def Let_def)

lemma comboview_combo_clear:
  assumes "\<not> combo s"
  shows "seltags (monitor (comboview ui s) (selmon s)) = (\<not> seltags (monitor s (selmon s)))"
    and "combo (comboview ui s)"
    and "tagset (monitor (comboview ui s) (selmon s)) =
           (if (ucast (argtags ui) :: tagmask) \<noteq> 0
            then (tagset (monitor s (selmon s)))
                   ((\<not> seltags (monitor s (selmon s))) := ucast (argtags ui))
            else tagset (monitor s (selmon s)))"
  using assms by (simp_all add: comboview_def Let_def)

lemma comboview_two_keys:
  assumes "\<not> combo s" "stack_owned s" "(ucast (argtags ua) :: tagmask) \<noteq> 0"
  shows "selmon (comboview ub (comboview ua s)) = selmon s"
    and "tagset (monitor (comboview ub (comboview ua s)) (selmon s))
           (seltags (monitor (comboview ub (comboview ua s)) (selmon s)))
         = ucast (argtags ua) OR ucast (argtags ub)"
proof -
  let ?s1 = "comboview ua s"
  have m1: "selmon ?s1 = selmon s" and o1: "stack_owned ?s1"
    using assms(2) by (simp_all add: stack_owned_comboview)
  from o1 m1 show "selmon (comboview ub ?s1) = selmon s"
    by (simp add: stack_owned_comboview)
  have c1: "combo ?s1" using assms(1) by (rule comboview_combo_clear)
  from comboview_combo_set [OF c1, of ub] comboview_combo_clear [OF assms(1), of ua] assms(3) m1
  show "tagset (monitor (comboview ub ?s1) (selmon s))
           (seltags (monitor (comboview ub ?s1) (selmon s)))
         = ucast (argtags ua) OR ucast (argtags ub)"
    by simp
qed

text \<open>
  Claim C4, amended. Let \<open>a\<close> be the argument masked to the valid tags. With the combo flag
  set, \<^verbatim>\<open>comboview\<close> ORs \<open>a\<close> into the selected slot of the selected monitor's tagset and
  leaves \<^verbatim>\<open>seltags\<close> and the flag. With the flag clear, it toggles \<^verbatim>\<open>seltags\<close>, sets the flag,
  and stores \<open>a\<close> in the newly selected slot when \<open>a\<close> is not 0; when \<open>a\<close> is 0 both slots
  keep their values, so the view is the one the other slot held. Two calls in a row,
  starting with the flag clear, a non-zero first mask, and every client on the selected
  monitor's focus stack belonging to that monitor, leave the same monitor selected, with
  the union of the two masks as its selected tagset.
\<close>

theorem comboview_chord:
  "(combo s \<longrightarrow>
      tagset (monitor (comboview ui s) (selmon s)) =
        (tagset (monitor s (selmon s)))
          (seltags (monitor s (selmon s)) :=
             tagset (monitor s (selmon s)) (seltags (monitor s (selmon s)))
               OR ucast (argtags ui))
      \<and> seltags (monitor (comboview ui s) (selmon s)) = seltags (monitor s (selmon s))
      \<and> combo (comboview ui s))
   \<and> (\<not> combo s \<longrightarrow>
      seltags (monitor (comboview ui s) (selmon s)) = (\<not> seltags (monitor s (selmon s)))
      \<and> combo (comboview ui s)
      \<and> tagset (monitor (comboview ui s) (selmon s)) =
          (if (ucast (argtags ui) :: tagmask) \<noteq> 0
           then (tagset (monitor s (selmon s)))
                  ((\<not> seltags (monitor s (selmon s))) := ucast (argtags ui))
           else tagset (monitor s (selmon s))))
   \<and> (\<not> combo s \<and> stack_owned s \<and> (ucast (argtags ui) :: tagmask) \<noteq> 0 \<longrightarrow>
      selmon (comboview ub (comboview ui s)) = selmon s
      \<and> tagset (monitor (comboview ub (comboview ui s)) (selmon s))
           (seltags (monitor (comboview ub (comboview ui s)) (selmon s)))
         = ucast (argtags ui) OR ucast (argtags ub))"
  using comboview_combo_set [of s ui] comboview_combo_clear [of s ui]
    comboview_two_keys [of s ui ub]
  by blast

theorem comboview_chord_witness:
  "combo one_hidden
   \<and> tagset (monitor (comboview 1 one_hidden) 1) True = 3
   \<and> \<not> combo one_window \<and> stack_owned one_window
   \<and> seltags (monitor (comboview 2 one_window) 1)
   \<and> tagset (monitor (comboview 2 one_window) 1) True = 2
   \<and> tagset (monitor (comboview 2 (comboview 1 one_window)) 1)
        (seltags (monitor (comboview 2 (comboview 1 one_window)) 1)) = 3"
proof -
  have a: "combo one_hidden" "selmon one_hidden = 1" "seltags (monitor one_hidden 1)"
    "tagset (monitor one_hidden 1) True = 2"
    by (simp_all add: scenario_vals eval_defs cong: let_weak_cong)
  have b: "\<not> combo one_window" "stack_owned one_window" "selmon one_window = 1"
    "\<not> seltags (monitor one_window 1)"
    by (simp_all add: stack_owned_def scenario_vals eval_defs cong: let_weak_cong)
  have c: "(ucast (argtags 1) :: tagmask) = 1" "(ucast (argtags 2) :: tagmask) = 2"
    by (simp_all add: argtags_def TAGMASK_def ntags_def)
  from comboview_chord [of one_hidden 1 2] comboview_chord [of one_window 2 2]
    comboview_chord [of one_window 1 2] a b c
  show ?thesis by simp
qed

text \<open>The claim as stated has the tagset set to the new mask whenever the flag is clear.
  With the argument \<^verbatim>\<open>1 << 9\<close>, which has no valid tag bit, the new mask is 0 and
  the selected tagset after the call is 1.\<close>

theorem comboview_chord_counterexample:
  "\<not> combo init_wm
   \<and> (ucast (argtags 512) :: tagmask) = 0
   \<and> tagset (monitor (comboview 512 init_wm) (selmon (comboview 512 init_wm)))
        (seltags (monitor (comboview 512 init_wm) (selmon (comboview 512 init_wm)))) = 1"
  by (simp add: eval_defs cong: let_weak_cong)

section \<open>The master area stays in range\<close>

lemma fl64_lo: "fl64 (1 / 20) = Fin (3602879701896397 / 72057594037927936)"
  by (simp add: fl64_def overflow_to_def fround_def ilog2_def pow2_def
      round_even_def Let_def compute_floorlog)

lemma fl64_hi: "fl64 (19 / 20) = Fin (4278419646001971 / 4503599627370496)"
  by (simp add: fl64_def overflow_to_def fround_def ilog2_def pow2_def
      round_even_def Let_def compute_floorlog)

lemma long2int_id: "- (2 ^ 31) \<le> v \<Longrightarrow> v < 2 ^ 31 \<Longrightarrow> long2int v = v"
  by (simp add: long2int_def i32_def u32_def sint_sbintrunc' signed_take_bit_int_eq_self)

lemma overflow_to_not_NaN: "overflow_to bnd r \<noteq> NaN"
  by (simp add: overflow_to_def)

lemma fadd_not_NaN: "a \<noteq> NaN \<Longrightarrow> fadd fl32 a (Fin q) \<noteq> NaN"
  by (cases a) (simp_all add: fl32_def overflow_to_not_NaN)

lemma new_mfact_not_NaN:
  assumes "a \<noteq> NaN" "mfact M = Fin q"
  shows "new_mfact a M \<noteq> NaN"
  using assms by (cases a) (simp_all add: new_mfact_def fsub_def fl32_def fl64_def overflow_to_def)

lemma setmfact_new_mfact:
  "setmfact (Some a) s =
     (let f = new_mfact a (monitor s (selmon s))
      in if flt f (fl64 (1 / 20)) \<or> flt (fl64 (19 / 20)) f then s
         else arrange (Some (selmon s)) (upd_monitor (selmon s) (\<lambda>M. M\<lparr>mfact := f\<rparr>) s))"
  by (simp add: setmfact_def new_mfact_def Let_def)

lemma stored_in_range:
  assumes "f \<noteq> NaN" "\<not> (flt f (fl64 (1 / 20)) \<or> flt (fl64 (19 / 20)) f)"
  shows "case f of Fin q \<Rightarrow> 1 / 20 \<le> q \<and> q \<le> 19 / 20 | _ \<Rightarrow> False"
  using assms by (cases f) (simp_all add: fl64_lo fl64_hi)

lemma outside_range_refused:
  assumes "outside_range f"
  shows "flt f (fl64 (1 / 20)) \<or> flt (fl64 (19 / 20)) f"
  using assms by (cases f) (auto simp: outside_range_def fl64_lo fl64_hi)

lemma selmon_mop_step [simp]: "selmon (mop_step p s) = selmon s"
  by (cases p) (simp_all add: setmfact_def incnmaster_def Let_def split: option.splits)

lemma mop_step_other:
  "m \<noteq> selmon s \<Longrightarrow> monitor (mop_step p s) m = monitor s m"
  by (cases p) (simp_all add: setmfact_def incnmaster_def Let_def split: option.splits)

lemma master_range_setmfact:
  assumes "arg \<noteq> Some NaN" "master_range (monitor s (selmon s))"
  shows "master_range (monitor (setmfact arg s) (selmon s))"
proof (cases arg)
  case None
  with assms show ?thesis by (simp add: setmfact_def)
next
  case (Some a)
  from assms(2) obtain q where q: "mfact (monitor s (selmon s)) = Fin q"
    by (auto simp: master_range_def split: cfloat.splits)
  from Some assms(1) have "a \<noteq> NaN" by simp
  from new_mfact_not_NaN [OF this q] stored_in_range [of "new_mfact a (monitor s (selmon s))"]
    assms(2) Some
  show ?thesis
    by (auto simp: setmfact_new_mfact Let_def master_range_def)
qed

lemma master_range_incnmaster:
  assumes "nmaster (monitor s (selmon s)) + i < 2 ^ 31" "master_range (monitor s (selmon s))"
  shows "master_range (monitor (incnmaster i s) (selmon s))"
proof -
  from assms(1) have "long2int (max (nmaster (monitor s (selmon s)) + i) 0)
      = max (nmaster (monitor s (selmon s)) + i) 0"
    by (intro long2int_id) simp_all
  with assms(2) show ?thesis
    by (simp add: incnmaster_def master_range_def)
qed

lemma master_range_step:
  assumes "mops_in_range (p # ps) s" "master_range (monitor s m)"
  shows "master_range (monitor (mop_step p s) m)"
proof (cases "m = selmon s")
  case False
  with assms(2) show ?thesis by (simp add: mop_step_other)
next
  case True
  with assms show ?thesis
    by (cases p) (simp_all add: master_range_setmfact master_range_incnmaster)
qed

lemma mops_in_range_tail: "mops_in_range (p # ps) s \<Longrightarrow> mops_in_range ps (mop_step p s)"
  by (cases p) simp_all

lemma master_range_run:
  "mops_in_range ops s \<Longrightarrow> master_range (monitor s m)
   \<Longrightarrow> master_range (monitor (run_mops ops s) m)"
proof (induction ops arbitrary: s)
  case Nil
  then show ?case by simp
next
  case (Cons p ps)
  from Cons.prems have "master_range (monitor (mop_step p s) m)"
    by (rule master_range_step)
  with Cons.IH [OF mops_in_range_tail [OF Cons.prems(1)]] show ?case by simp
qed

lemma master_range_createmon: "master_range (createmon s)"
  by (simp add: master_range_def createmon_def mfact_cfg_val nmaster_cfg_def)

lemma setmfact_refused:
  "outside_range (new_mfact a (monitor s (selmon s))) \<Longrightarrow> setmfact (Some a) s = s"
  using outside_range_refused [of "new_mfact a (monitor s (selmon s))"]
  by (auto simp: setmfact_new_mfact Let_def)

lemma incnmaster_clamps:
  "nmaster (monitor s (selmon s)) + i \<le> 0
   \<Longrightarrow> nmaster (monitor (incnmaster i s) (selmon s)) = 0"
  by (simp add: incnmaster_def long2int_def i32_def u32_def max_def)

text \<open>Pressing the key bound to \<^verbatim>\<open>incnmaster(+1)\<close> \<open>n\<close> times.\<close>

lemma run_mops_append: "run_mops (ps @ qs) s = run_mops qs (run_mops ps s)"
  by (induction ps arbitrary: s) simp_all

lemma selmon_run_mops [simp]: "selmon (run_mops ps s) = selmon s"
  by (induction ps arbitrary: s) simp_all

lemma nmaster_incnmaster:
  "nmaster (monitor (incnmaster i s) (selmon s))
     = long2int (max (nmaster (monitor s (selmon s)) + i) 0)"
  by (simp add: incnmaster_def)

lemma nmaster_increments:
  assumes "0 \<le> nmaster (monitor s (selmon s))"
    and "nmaster (monitor s (selmon s)) + int n < 2 ^ 31"
  shows "nmaster (monitor (run_mops (replicate n (IncNMaster 1)) s) (selmon s))
           = nmaster (monitor s (selmon s)) + int n"
  using assms
proof (induction n arbitrary: s)
  case 0
  then show ?case by simp
next
  case (Suc n)
  let ?t = "incnmaster 1 s"
  have st: "selmon ?t = selmon s" by (simp add: incnmaster_def)
  from Suc.prems have "long2int (max (nmaster (monitor s (selmon s)) + 1) 0)
      = nmaster (monitor s (selmon s)) + 1"
    by (subst long2int_id) simp_all
  then have nt: "nmaster (monitor ?t (selmon ?t)) = nmaster (monitor s (selmon s)) + 1"
    by (simp add: st nmaster_incnmaster)
  from Suc.prems nt have "nmaster (monitor (run_mops (replicate n (IncNMaster 1)) ?t) (selmon ?t))
      = nmaster (monitor ?t (selmon ?t)) + int n"
    by (intro Suc.IH) simp_all
  with nt st show ?case by simp
qed

text \<open>
  Claim C8, amended. A monitor as \<^verbatim>\<open>createmon\<close> leaves it has \<^verbatim>\<open>mfact\<close> in [0.05, 0.95] and
  \<^verbatim>\<open>nmaster\<close> not negative, and every sequence of \<^verbatim>\<open>setmfact\<close> and \<^verbatim>\<open>incnmaster\<close> calls keeps
  this for every monitor, provided that no \<^verbatim>\<open>setmfact\<close> argument is a NaN and that no sum
  \<^verbatim>\<open>nmaster + arg->i\<close> reaches \<open>2\<^sup>3\<^sup>1\<close>. \<^verbatim>\<open>setmfact\<close> returns the state unchanged when the
  adjusted or absolute value is infinite or outside [0.05, 0.95], and \<^verbatim>\<open>incnmaster\<close>
  stores 0 when the sum is not positive.
\<close>

theorem master_range_kept:
  "master_range (createmon s0)
   \<and> (mops_in_range ops s \<and> master_range (monitor s m)
        \<longrightarrow> master_range (monitor (run_mops ops s) m))
   \<and> (outside_range (new_mfact a (monitor s (selmon s))) \<longrightarrow> setmfact (Some a) s = s)
   \<and> (nmaster (monitor s (selmon s)) + i \<le> 0
        \<longrightarrow> nmaster (monitor (incnmaster i s) (selmon s)) = 0)"
  using master_range_createmon [of s0] master_range_run [of ops s m]
    setmfact_refused [of a s] incnmaster_clamps [of s i]
  by blast

theorem master_range_kept_witness:
  "mops_in_range [SetMfact (Some (Fin (1 / 2))), IncNMaster (- 5), IncNMaster 2,
       SetMfact (Some (Fin (3 / 2))), SetMfact None] init_wm
   \<and> master_range (monitor init_wm 1)
   \<and> master_range (monitor (run_mops [SetMfact (Some (Fin (1 / 2))), IncNMaster (- 5),
        IncNMaster 2, SetMfact (Some (Fin (3 / 2))), SetMfact None] init_wm) 1)
   \<and> outside_range (new_mfact (Fin (1 / 2)) (monitor init_wm (selmon init_wm)))
   \<and> setmfact (Some (Fin (1 / 2))) init_wm = init_wm
   \<and> nmaster (monitor init_wm (selmon init_wm)) + (- 5) \<le> 0
   \<and> nmaster (monitor (incnmaster (- 5) init_wm) (selmon init_wm)) = 0"
proof -
  have sm: "selmon init_wm = 1" and nm: "nmaster (monitor init_wm 1) = 1"
    and mf: "mfact (monitor init_wm 1) = Fin (9227469 / 16777216)"
    by (simp_all add: eval_defs)
  have f1: "new_mfact (Fin (1 / 2)) (monitor init_wm 1) = Fin (4404019 / 4194304)"
    using mf by (simp add: new_mfact_def fl32_def overflow_to_def fround_def ilog2_def pow2_def
        round_even_def Let_def compute_floorlog)
  have o: "outside_range (new_mfact (Fin (1 / 2)) (monitor init_wm (selmon init_wm)))"
    using sm f1 by (simp add: outside_range_def)
  have s1: "setmfact (Some (Fin (1 / 2))) init_wm = init_wm"
    using sm f1 by (simp add: setmfact_new_mfact fl64_lo fl64_hi)
  have s2: "nmaster (monitor (incnmaster (- 5) init_wm) (selmon (incnmaster (- 5) init_wm))) = 0"
    using sm nm nmaster_incnmaster [of "- 5" init_wm]
    by (simp add: incnmaster_def long2int_def i32_def u32_def)
  have r: "mops_in_range [SetMfact (Some (Fin (1 / 2))), IncNMaster (- 5), IncNMaster 2,
       SetMfact (Some (Fin (3 / 2))), SetMfact None] init_wm"
    using s1 sm nm s2 by simp
  have m: "master_range (monitor init_wm 1)"
    using nm mf by (simp add: master_range_def)
  have n: "nmaster (monitor init_wm (selmon init_wm)) + (- 5) \<le> 0"
    using sm nm by simp
  from master_range_kept [of init_wm "[SetMfact (Some (Fin (1 / 2))), IncNMaster (- 5),
        IncNMaster 2, SetMfact (Some (Fin (3 / 2))), SetMfact None]" init_wm 1 "Fin (1 / 2)" "- 5"]
    r m o n
  show ?thesis by blast
qed

text \<open>The claim as stated covers every sequence. From the monitor that \<^verbatim>\<open>setup\<close> creates,
  \<open>2\<^sup>3\<^sup>1 - 1\<close> calls of \<^verbatim>\<open>incnmaster\<close> with +1 (or one call with \<open>2\<^sup>3\<^sup>1 - 1\<close>) make the \<^verbatim>\<open>long\<close>
  sum \<open>2\<^sup>3\<^sup>1\<close>, which is stored in the \<^verbatim>\<open>int\<close> field as \<open>-2\<^sup>3\<^sup>1\<close>; and \<^verbatim>\<open>setmfact\<close> with a NaN
  stores the NaN, since both comparisons are false.\<close>

theorem master_range_kept_counterexample:
  "nmaster (monitor (run_mops (replicate 2147483647 (IncNMaster 1)) init_wm) 1) = - 2147483648
   \<and> nmaster (monitor (run_mops [IncNMaster 2147483647] init_wm) 1) = - 2147483648
   \<and> mfact (monitor (run_mops [SetMfact (Some NaN)] init_wm) 1) = NaN"
proof -
  have sm: "selmon init_wm = 1" and nm: "nmaster (monitor init_wm 1) = 1"
    by (simp_all add: eval_defs)
  let ?t = "run_mops (replicate 2147483646 (IncNMaster 1)) init_wm"
  have "nmaster (monitor ?t (selmon init_wm)) = nmaster (monitor init_wm (selmon init_wm))
          + int 2147483646"
    by (rule nmaster_increments) (insert sm nm, simp_all)
  with sm nm have t: "nmaster (monitor ?t 1) = 2147483647" and st: "selmon ?t = 1"
    by simp_all
  have n: "(2147483647 :: nat) = Suc 2147483646" by simp
  have "replicate 2147483647 (IncNMaster 1)
          = replicate 2147483646 (IncNMaster 1) @ [IncNMaster 1]"
    by (subst n) (simp only: replicate_Suc replicate_append_same)
  then have "run_mops (replicate 2147483647 (IncNMaster 1)) init_wm = incnmaster 1 ?t"
    by (simp add: run_mops_append)
  moreover have "nmaster (monitor (incnmaster 1 ?t) 1) = - 2147483648"
    using nmaster_incnmaster [of 1 ?t] st t by (simp add: long2int_def i32_def u32_def)
  ultimately have a: "nmaster (monitor (run_mops (replicate 2147483647 (IncNMaster 1)) init_wm) 1)
      = - 2147483648"
    by simp
  have b: "nmaster (monitor (run_mops [IncNMaster 2147483647] init_wm) 1) = - 2147483648"
    using nmaster_incnmaster [of 2147483647 init_wm] sm nm
    by (simp add: long2int_def i32_def u32_def)
  have c: "mfact (monitor (run_mops [SetMfact (Some NaN)] init_wm) 1) = NaN"
    using sm by (simp add: setmfact_def fsub_def Let_def fl64_lo fl64_hi)
  from a b c show ?thesis by simp
qed

end
